theory Spec2Isabelle
  imports Complex_Main "HOL-Library.Product_Lexorder"
begin

section \<open>Timetabling engine: schedule validator, conflict analyzer, search driver\<close>

text \<open>
  A shallow embedding of \<^verbatim>\<open>services/csp_solver.py\<close> and
  \<^verbatim>\<open>services/conflict_analyzer.py\<close>. Python floats are idealised as exact
  rationals (\<^typ>\<open>rat\<close>); Python integers are \<^typ>\<open>int\<close>; counters that only ever
  count upwards from zero are \<^typ>\<open>nat\<close>. Dictionaries whose iteration order
  matters are association lists in insertion order.
\<close>

subsection \<open>Python helpers\<close>

text \<open>\<^verbatim>\<open>str(n)\<close> for an integer, as the f-strings of the source render it.\<close>

fun string_of_nat :: "nat \<Rightarrow> string" where
  "string_of_nat n =
     (if n < 10 then [''0123456789'' ! n]
      else string_of_nat (n div 10) @ [''0123456789'' ! (n mod 10)])"

declare string_of_nat.simps [simp del]

definition py_str :: "int \<Rightarrow> string" where
  "py_str i = (if i < 0 then ''-'' @ string_of_nat (nat (- i)) else string_of_nat (nat i))"

text \<open>The format \<^verbatim>\<open>{hour:02d}\<close>: pad with a zero to width two.\<close>

definition fmt02d :: "int \<Rightarrow> string" where
  "fmt02d i = (let s = py_str i in if length s < 2 then ''0'' @ s else s)"

text \<open>The slice \<^verbatim>\<open>xs[:n]\<close>; a negative \<open>n\<close> counts from the end.\<close>

definition py_take :: "int \<Rightarrow> 'a list \<Rightarrow> 'a list" where
  "py_take n xs = (if 0 \<le> n then take (nat n) xs else take (length xs - nat (- n)) xs)"

text \<open>
  A dictionary used as a counter, \<^verbatim>\<open>d[k] = d.get(k, 0) + 1\<close>: an existing key keeps
  its position, a new key goes last.
\<close>

fun bump :: "'k \<Rightarrow> ('k \<times> nat) list \<Rightarrow> ('k \<times> nat) list" where
  "bump k [] = [(k, 1)]"
| "bump k ((k', c) # d) = (if k' = k then (k', Suc c) # d else (k', c) # bump k d)"

definition count_by :: "('a \<Rightarrow> 'k) \<Rightarrow> 'a list \<Rightarrow> ('k \<times> nat) list" where
  "count_by f xs = foldl (\<lambda>d x. bump (f x) d) [] xs"

text \<open>
  A dictionary of lists, \<^verbatim>\<open>d[k].append(v)\<close> with a fresh empty list for a new key
  (\<^verbatim>\<open>defaultdict(list)\<close>, or the explicit \<^verbatim>\<open>if k not in d: d[k] = []\<close>).
\<close>

fun append_at :: "'k \<Rightarrow> 'v \<Rightarrow> ('k \<times> 'v list) list \<Rightarrow> ('k \<times> 'v list) list" where
  "append_at k v [] = [(k, [v])]"
| "append_at k v ((k', vs) # d) =
     (if k' = k then (k', vs @ [v]) # d else (k', vs) # append_at k v d)"

subsection \<open>Data model (\<^verbatim>\<open>models/optimization_models.py\<close>)\<close>

text \<open>Of a \<^verbatim>\<open>datetime\<close> the code only ever reads \<^verbatim>\<open>.hour\<close>.\<close>

record datetime =
  hour :: int
  minute :: int

record ScheduledSessionModel =
  session_id :: string
  course_id :: string
  lecturer_id :: string
  venue_id :: string
  student_groups :: "string list"
  start_time :: datetime
  end_time :: datetime
  day_of_week :: int

text \<open>The values stored in the loosely typed conflict and metadata dictionaries.\<close>

datatype pyval = PStr string | PStrList "string list" | PNum rat

type_synonym pydict = "(string \<times> pyval) list"

record SolutionModel =
  sessions :: "ScheduledSessionModel list"
  sol_score :: rat
  is_feasible :: bool
  sol_conflicts :: "pydict list"
  metadata :: pydict

record ValidationResult =
  is_valid :: bool
  val_score :: rat
  val_conflicts :: "pydict list"
  constraint_violations :: "pydict list"

subsection \<open>Schedule validator (\<^verbatim>\<open>CSPSolver.validate_solution\<close>)\<close>

text \<open>\<^verbatim>\<open>time_key = f"{session.day_of_week}_{session.start_time.hour}"\<close>\<close>

definition time_key :: "ScheduledSessionModel \<Rightarrow> string" where
  "time_key s = py_str (day_of_week s) @ ''_'' @ py_str (hour (start_time s))"

record hc_state =
  venue_bookings :: "string \<rightharpoonup> string set"
  lecturer_bookings :: "string \<rightharpoonup> string set"
  violations :: "pydict list"
  total_checks :: nat
  passed_checks :: nat

definition bookings_of :: "(string \<rightharpoonup> string set) \<Rightarrow> string \<Rightarrow> string set" where
  "bookings_of b k = (case b k of None \<Rightarrow> {} | Some S \<Rightarrow> S)"

text \<open>One iteration of the loop over the sessions: the venue check, then the lecturer check.\<close>

definition venue_check :: "ScheduledSessionModel \<Rightarrow> hc_state \<Rightarrow> hc_state" where
  "venue_check s st =
     (let tk = time_key s;
          vb = (if venue_bookings st (venue_id s) = None
                then (venue_bookings st)(venue_id s \<mapsto> {}) else venue_bookings st);
          st1 = (if tk \<in> bookings_of vb (venue_id s)
                 then st\<lparr>venue_bookings := vb,
                         violations := violations st @
                           [[(''type'', PStr ''venue_double_booking''),
                             (''venue_id'', PStr (venue_id s)),
                             (''time'', PStr tk),
                             (''sessions'', PStrList [session_id s])]]\<rparr>
                 else st\<lparr>venue_bookings := vb(venue_id s \<mapsto> insert tk (bookings_of vb (venue_id s))),
                         passed_checks := passed_checks st + 1\<rparr>)
      in st1\<lparr>total_checks := total_checks st1 + 1\<rparr>)"

definition lecturer_check :: "ScheduledSessionModel \<Rightarrow> hc_state \<Rightarrow> hc_state" where
  "lecturer_check s st =
     (let tk = time_key s;
          lb = (if lecturer_bookings st (lecturer_id s) = None
                then (lecturer_bookings st)(lecturer_id s \<mapsto> {}) else lecturer_bookings st);
          st1 = (if tk \<in> bookings_of lb (lecturer_id s)
                 then st\<lparr>lecturer_bookings := lb,
                         violations := violations st @
                           [[(''type'', PStr ''lecturer_double_booking''),
                             (''lecturer_id'', PStr (lecturer_id s)),
                             (''time'', PStr tk),
                             (''sessions'', PStrList [session_id s])]]\<rparr>
                 else st\<lparr>lecturer_bookings := lb(lecturer_id s \<mapsto> insert tk (bookings_of lb (lecturer_id s))),
                         passed_checks := passed_checks st + 1\<rparr>)
      in st1\<lparr>total_checks := total_checks st1 + 1\<rparr>)"

definition hc_step :: "hc_state \<Rightarrow> ScheduledSessionModel \<Rightarrow> hc_state" where
  "hc_step st s = lecturer_check s (venue_check s st)"

definition hc_init :: hc_state where
  "hc_init = \<lparr>venue_bookings = Map.empty, lecturer_bookings = Map.empty,
              violations = [], total_checks = 0, passed_checks = 0\<rparr>"

definition hc_run :: "ScheduledSessionModel list \<Rightarrow> hc_state" where
  "hc_run ss = foldl hc_step hc_init ss"

definition validate_hard_constraints :: "SolutionModel \<Rightarrow> rat \<times> pydict list" where
  "validate_hard_constraints solution =
     (let st = hc_run (sessions solution);
          score = (if total_checks st > 0
                   then of_nat (passed_checks st) / of_nat (total_checks st) else 1)
      in (score, violations st))"

text \<open>The four soft scores.\<close>

definition calculate_venue_utilization_score :: "SolutionModel \<Rightarrow> rat" where
  "calculate_venue_utilization_score solution =
     (if sessions solution = [] then 0
      else let venue_usage = count_by venue_id (sessions solution);
               total_sessions = length (sessions solution);
               num_venues = length venue_usage
           in if num_venues = 0 then 0
              else let ideal_sessions_per_venue = of_nat total_sessions / of_nat num_venues;
                       utilization_variance =
                         (\<Sum>c \<leftarrow> map snd venue_usage. \<bar>of_nat c - ideal_sessions_per_venue\<bar>)
                           / of_nat num_venues;
                       max_possible_variance = ideal_sessions_per_venue
                   in max 0 (1 - utilization_variance / max_possible_variance))"

definition calculate_lecturer_satisfaction_score :: "SolutionModel \<Rightarrow> rat" where
  "calculate_lecturer_satisfaction_score solution =
     (if sessions solution = [] then 1
      else let lecturer_workload = count_by lecturer_id (sessions solution)
           in if lecturer_workload = [] then 1
              else let workloads = map snd lecturer_workload;
                       avg_workload = of_nat (sum_list workloads) / of_nat (length workloads);
                       workload_variance =
                         (\<Sum>w \<leftarrow> workloads. \<bar>of_nat w - avg_workload\<bar>) / of_nat (length workloads);
                       max_variance = (if avg_workload > 0 then avg_workload else 1)
                   in max 0 (1 - workload_variance / max_variance))"

text \<open>
  \<^verbatim>\<open>group_schedules[group_id][day].append(hour)\<close>: keyed here by the pair
  (group, day), which visits the same (group, day) cells as the nested dictionaries do.
\<close>

definition group_schedules :: "ScheduledSessionModel list \<Rightarrow> ((string \<times> int) \<times> int list) list" where
  "group_schedules ss =
     foldl (\<lambda>d s. foldl (\<lambda>d g. append_at (g, day_of_week s) (hour (start_time s)) d)
                     d (student_groups s)) [] ss"

fun gaps :: "int list \<Rightarrow> int" where
  "gaps (a # b # hs) = (b - a - 1) + gaps (b # hs)"
| "gaps _ = 0"

definition calculate_student_convenience_score :: "SolutionModel \<Rightarrow> rat" where
  "calculate_student_convenience_score solution =
     (if sessions solution = [] then 1
      else let cells = map snd (group_schedules (sessions solution));
               total_gap_penalty =
                 (\<Sum>hours \<leftarrow> cells. if length hours > 1 then gaps (sort hours) else 0);
               total_days = length cells
           in if total_days = 0 then 1
              else let avg_gap_penalty = of_int total_gap_penalty / of_nat total_days;
                       max_possible_gap = 8
                   in max 0 (1 - avg_gap_penalty / max_possible_gap))"

definition calculate_efficiency_score :: "SolutionModel \<Rightarrow> rat" where
  "calculate_efficiency_score solution =
     (if sessions solution = [] then 0
      else let used_slots = remdups (map time_key (sessions solution));
               total_available_slots = 50;
               utilization_rate = of_nat (length used_slots) / total_available_slots
           in if 0.6 \<le> utilization_rate \<and> utilization_rate \<le> 0.8 then 1
              else if utilization_rate < 0.6 then utilization_rate / 0.6
              else max 0 (1 - (utilization_rate - 0.8) / 0.2))"

definition validate_solution :: "SolutionModel \<Rightarrow> ValidationResult" where
  "validate_solution solution =
     (let (hard_constraint_score, hard_violations) = validate_hard_constraints solution;
          conflicts = (if hard_constraint_score < 1 then hard_violations else []);
          venue_utilization =
            (if is_feasible solution then calculate_venue_utilization_score solution else 0);
          lecturer_satisfaction =
            (if is_feasible solution then calculate_lecturer_satisfaction_score solution else 0);
          student_convenience =
            (if is_feasible solution then calculate_student_convenience_score solution else 0);
          overall_efficiency =
            (if is_feasible solution then calculate_efficiency_score solution else 0);
          overall_score = hard_constraint_score * 0.4 + venue_utilization * 0.15
                          + lecturer_satisfaction * 0.2 + student_convenience * 0.15
                          + overall_efficiency * 0.1
      in \<lparr>is_valid = (length conflicts = 0), val_score = overall_score,
          val_conflicts = conflicts, constraint_violations = hard_violations\<rparr>)"


text \<open>
  The (venue, slot) and (lecturer, slot) pairs that a list of sessions occupies: what the
  two booking dictionaries hold after the loop.
\<close>

definition venue_slots :: "ScheduledSessionModel list \<Rightarrow> (string \<times> string) set" where
  "venue_slots ss = (\<lambda>s. (venue_id s, time_key s)) ` set ss"

definition lecturer_slots :: "ScheduledSessionModel list \<Rightarrow> (string \<times> string) set" where
  "lecturer_slots ss = (\<lambda>s. (lecturer_id s, time_key s)) ` set ss"

subsection \<open>Entities\<close>

text \<open>
  Entities reach the engine as dictionaries read with \<^verbatim>\<open>.get(key, default)\<close>; a field
  that may be absent is an \<open>option\<close>, and its reader applies the default of the source.
\<close>

record Venue =
  venue_ident :: string
  venue_name :: string
  capacity :: "int option"
  equipment :: "string list option"

record Course =
  course_ident :: string
  required_equipment :: "string list option"
  course_student_groups :: "string list option"

record StudentGroup =
  group_ident :: string
  group_size :: "int option"

record AvailabilitySlot =
  start_hour :: "int option"
  end_hour :: "int option"

record Lecturer =
  lecturer_ident :: string
  availability :: "(string \<times> AvailabilitySlot list) list"

record Entities =
  ent_venues :: "Venue list"
  ent_lecturers :: "Lecturer list"
  ent_courses :: "Course list"
  ent_student_groups :: "StudentGroup list"

definition get_capacity :: "Venue \<Rightarrow> int" where
  "get_capacity v = (case capacity v of None \<Rightarrow> 0 | Some c \<Rightarrow> c)"

definition get_equipment :: "Venue \<Rightarrow> string list" where
  "get_equipment v = (case equipment v of None \<Rightarrow> [] | Some es \<Rightarrow> es)"

definition get_required_equipment :: "Course \<Rightarrow> string list" where
  "get_required_equipment c = (case required_equipment c of None \<Rightarrow> [] | Some es \<Rightarrow> es)"

definition get_course_groups :: "Course \<Rightarrow> string list" where
  "get_course_groups c = (case course_student_groups c of None \<Rightarrow> [] | Some gs \<Rightarrow> gs)"

definition get_size :: "StudentGroup \<Rightarrow> int" where
  "get_size g = (case group_size g of None \<Rightarrow> 0 | Some n \<Rightarrow> n)"

text \<open>
  \<^verbatim>\<open>{x['id']: x for x in xs}.get(k)\<close>: of two entries with one id the later one stays.
\<close>

definition dict_by_id :: "('a \<Rightarrow> string) \<Rightarrow> 'a list \<Rightarrow> string \<Rightarrow> 'a option" where
  "dict_by_id key xs k = find (\<lambda>x. key x = k) (rev xs)"

subsection \<open>The hard rules the solver installs (\<^verbatim>\<open>CSPSolver._add_hard_constraints\<close>)\<close>

text \<open>
  The arithmetic of \<^verbatim>\<open>_add_venue_capacity_constraints\<close>,
  \<^verbatim>\<open>_add_equipment_constraints\<close> and \<^verbatim>\<open>_add_lecturer_availability_constraints\<close>,
  read for one scheduled session: the data-model invariants 5, 6 and 7.
\<close>

definition total_students :: "Entities \<Rightarrow> Course \<Rightarrow> int" where
  "total_students entities course =
     (\<Sum>g \<leftarrow> filter (\<lambda>g. group_ident g \<in> set (get_course_groups course))
                 (ent_student_groups entities). get_size g)"

definition is_available :: "Lecturer \<Rightarrow> int \<Rightarrow> int \<Rightarrow> bool" where
  "is_available lecturer day h =
     (let day_availability =
            (case map_of (availability lecturer) (py_str day) of None \<Rightarrow> [] | Some sl \<Rightarrow> sl)
      in list_ex (\<lambda>slot. (case start_hour slot of None \<Rightarrow> 0 | Some a \<Rightarrow> a) \<le> h
                        \<and> h < (case end_hour slot of None \<Rightarrow> 24 | Some b \<Rightarrow> b))
           day_availability)"

definition capacity_invariant :: "Entities \<Rightarrow> ScheduledSessionModel \<Rightarrow> bool" where
  "capacity_invariant entities s =
     (case (find (\<lambda>v. venue_ident v = venue_id s) (ent_venues entities),
            find (\<lambda>c. course_ident c = course_id s) (ent_courses entities)) of
        (Some v, Some c) \<Rightarrow> \<not> (total_students entities c > get_capacity v)
      | _ \<Rightarrow> False)"

definition equipment_invariant :: "Entities \<Rightarrow> ScheduledSessionModel \<Rightarrow> bool" where
  "equipment_invariant entities s =
     (case (find (\<lambda>v. venue_ident v = venue_id s) (ent_venues entities),
            find (\<lambda>c. course_ident c = course_id s) (ent_courses entities)) of
        (Some v, Some c) \<Rightarrow> set (get_required_equipment c) \<subseteq> set (get_equipment v)
      | _ \<Rightarrow> False)"

definition availability_invariant :: "Entities \<Rightarrow> ScheduledSessionModel \<Rightarrow> bool" where
  "availability_invariant entities s =
     (case find (\<lambda>l. lecturer_ident l = lecturer_id s) (ent_lecturers entities) of
        Some l \<Rightarrow> is_available l (day_of_week s) (hour (start_time s))
      | None \<Rightarrow> False)"

subsection \<open>Alternative finders (the last definitions in \<^verbatim>\<open>ConflictAnalyzer\<close>)\<close>

definition required_capacity :: "ScheduledSessionModel \<Rightarrow> Entities \<Rightarrow> int" where
  "required_capacity session entities =
     (\<Sum>group_id \<leftarrow> student_groups session.
        case dict_by_id group_ident (ent_student_groups entities) group_id of
          None \<Rightarrow> 0 | Some g \<Rightarrow> get_size g)"

definition session_required_equipment :: "ScheduledSessionModel \<Rightarrow> Entities \<Rightarrow> string list" where
  "session_required_equipment session entities =
     (case dict_by_id course_ident (ent_courses entities) (course_id session) of
        None \<Rightarrow> [] | Some course \<Rightarrow> get_required_equipment course)"

text \<open>The three \<^verbatim>\<open>continue\<close> tests of the loop over \<^verbatim>\<open>venues.values()\<close>.\<close>

definition suitable_venue :: "ScheduledSessionModel \<Rightarrow> Entities \<Rightarrow> Venue \<Rightarrow> bool" where
  "suitable_venue session entities venue =
     (if venue_ident venue = venue_id session then False
      else if get_capacity venue < required_capacity session entities then False
      else if \<not> list_all (\<lambda>eq. eq \<in> set (get_equipment venue))
                   (session_required_equipment session entities) then False
      else True)"

definition find_alternative_venues ::
  "ScheduledSessionModel \<Rightarrow> Venue list \<Rightarrow> Entities \<Rightarrow> Venue list" where
  "find_alternative_venues session venues entities =
     sort_key get_capacity (filter (suitable_venue session entities) venues)"

definition day_names :: "string list" where
  "day_names = [''Monday'', ''Tuesday'', ''Wednesday'', ''Thursday'', ''Friday'']"

definition time_str :: "int \<Rightarrow> int \<Rightarrow> string" where
  "time_str day h = day_names ! nat day @ '' '' @ fmt02d h @ '':00''"

text \<open>The inner scan over \<^verbatim>\<open>all_sessions\<close> that clears \<^verbatim>\<open>time_slot_free\<close>.\<close>

definition time_slot_free ::
  "ScheduledSessionModel \<Rightarrow> ScheduledSessionModel list \<Rightarrow> int \<Rightarrow> int \<Rightarrow> bool" where
  "time_slot_free session all_sessions day h =
     (\<not> list_ex (\<lambda>other_session.
            day_of_week other_session = day \<and> hour (start_time other_session) = h \<and>
            (venue_id other_session = venue_id session \<or>
             lecturer_id other_session = lecturer_id session \<or>
             list_ex (\<lambda>group. group \<in> set (student_groups other_session))
               (student_groups session)))
          all_sessions)"

text \<open>\<^verbatim>\<open>possible_hours = list(range(9, 17))\<close> and \<^verbatim>\<open>possible_days = list(range(5))\<close>\<close>

definition possible_hours :: "int list" where
  "possible_hours = [9..16]"

definition possible_days :: "int list" where
  "possible_days = [0..4]"

text \<open>
  The loop over the hours of one day, then the loop over the days; each leaves early
  once five alternatives are collected.
\<close>

fun hours_loop ::
  "ScheduledSessionModel \<Rightarrow> ScheduledSessionModel list \<Rightarrow> int \<Rightarrow> int list \<Rightarrow> string list
     \<Rightarrow> string list" where
  "hours_loop session all_sessions day [] alternative_times = alternative_times"
| "hours_loop session all_sessions day (h # hs) alternative_times =
     (if day = day_of_week session \<and> h = hour (start_time session)
      then hours_loop session all_sessions day hs alternative_times
      else if time_slot_free session all_sessions day h
      then (let alternative_times' = alternative_times @ [time_str day h]
            in if length alternative_times' \<ge> 5 then alternative_times'
               else hours_loop session all_sessions day hs alternative_times')
      else hours_loop session all_sessions day hs alternative_times)"

fun days_loop ::
  "ScheduledSessionModel \<Rightarrow> ScheduledSessionModel list \<Rightarrow> int list \<Rightarrow> string list
     \<Rightarrow> string list" where
  "days_loop session all_sessions [] alternative_times = alternative_times"
| "days_loop session all_sessions (day # days) alternative_times =
     (let alternative_times' = hours_loop session all_sessions day possible_hours alternative_times
      in if length alternative_times' \<ge> 5 then alternative_times'
         else days_loop session all_sessions days alternative_times')"

definition find_alternative_times ::
  "ScheduledSessionModel \<Rightarrow> ScheduledSessionModel list \<Rightarrow> string list" where
  "find_alternative_times session all_sessions = days_loop session all_sessions possible_days []"

text \<open>The slots the two loops visit, in order, without the session's current slot.\<close>

definition candidate_slots :: "ScheduledSessionModel \<Rightarrow> (int \<times> int) list" where
  "candidate_slots session =
     filter (\<lambda>(day, h). \<not> (day = day_of_week session \<and> h = hour (start_time session)))
       (List.product possible_days possible_hours)"


text \<open>A slot the loops append: not the current slot, and free.\<close>

definition usable ::
  "ScheduledSessionModel \<Rightarrow> ScheduledSessionModel list \<Rightarrow> int \<Rightarrow> int \<Rightarrow> bool" where
  "usable session all_sessions day h \<longleftrightarrow>
     \<not> (day = day_of_week session \<and> h = hour (start_time session)) \<and>
     time_slot_free session all_sessions day h"

subsection \<open>Conflict records, patterns and suggestions (\<^verbatim>\<open>conflict_analyzer.py\<close>)\<close>

text \<open>
  A conflict record as the analyzer reads it: a dictionary whose keys may be absent,
  \<^verbatim>\<open>conflict.get('type', 'unknown')\<close>, \<^verbatim>\<open>conflict.get('affected_entities', [])\<close>,
  \<^verbatim>\<open>conflict.get('session_ids', [])\<close>.
\<close>

record Conflict =
  ctype :: "string option"
  affected_entities :: "string list option"
  session_ids :: "string list option"

definition conflict_kind :: "Conflict \<Rightarrow> string" where
  "conflict_kind c = (case ctype c of None \<Rightarrow> ''unknown'' | Some t \<Rightarrow> t)"

definition get_affected_entities :: "Conflict \<Rightarrow> string list" where
  "get_affected_entities c = (case affected_entities c of None \<Rightarrow> [] | Some es \<Rightarrow> es)"


record ConflictPattern =
  conflict_type :: string
  frequency :: nat
  pattern_entities :: "string list"
  severity_score :: rat

definition calculate_severity :: "nat \<Rightarrow> string list \<Rightarrow> rat" where
  "calculate_severity freq ents =
     (let base_score = min (of_nat freq / 10) 1;
          entity_impact = of_nat (length ents) / 20
      in min (base_score + entity_impact) 1)"

text \<open>The constructor \<^verbatim>\<open>ConflictPattern.__init__\<close>.\<close>

definition new_pattern :: "string \<Rightarrow> nat \<Rightarrow> string list \<Rightarrow> ConflictPattern" where
  "new_pattern t freq ents =
     \<lparr>conflict_type = t, frequency = freq, pattern_entities = ents,
      severity_score = calculate_severity freq ents\<rparr>"

text \<open>\<^verbatim>\<open>Counter(conflict.get('type', 'unknown') for conflict in conflicts)\<close>\<close>

definition type_counts :: "Conflict list \<Rightarrow> (string \<times> nat) list" where
  "type_counts conflicts = count_by conflict_kind conflicts"

text \<open>\<^verbatim>\<open>entity_conflicts[entity].append(conflict)\<close> for every listed entity of every conflict.\<close>

definition entity_conflicts :: "Conflict list \<Rightarrow> (string \<times> Conflict list) list" where
  "entity_conflicts conflicts =
     foldl (\<lambda>d conflict. foldl (\<lambda>d entity. append_at entity conflict d) d
                            (get_affected_entities conflict)) [] conflicts"

text \<open>
  The first loop: one pattern per kind counted at least twice. \<^verbatim>\<open>list(set(...))\<close>
  removes duplicates in an order Python does not specify; \<open>remdups\<close> fixes one.
\<close>

definition kind_patterns :: "Conflict list \<Rightarrow> ConflictPattern list" where
  "kind_patterns conflicts =
     map (\<lambda>(t, count).
            new_pattern t count
              (remdups (concat (map get_affected_entities
                                  (filter (\<lambda>conflict. ctype conflict = Some t) conflicts)))))
       (filter (\<lambda>(t, count). count \<ge> 2) (type_counts conflicts))"

text \<open>The second loop: one pattern per entity listed at least three times.\<close>

definition hotspot_patterns :: "Conflict list \<Rightarrow> ConflictPattern list" where
  "hotspot_patterns conflicts =
     map (\<lambda>(entity, entity_conflict_list).
            new_pattern (''entity_hotspot_'' @ entity) (length entity_conflict_list) [entity])
       (filter (\<lambda>(entity, entity_conflict_list). length entity_conflict_list \<ge> 3)
          (entity_conflicts conflicts))"

text \<open>\<^verbatim>\<open>sorted(patterns, key=lambda p: p.severity_score, reverse=True)\<close>, a stable sort.\<close>

definition identify_conflict_patterns :: "Conflict list \<Rightarrow> ConflictPattern list" where
  "identify_conflict_patterns conflicts =
     sort_key (\<lambda>p. - severity_score p) (kind_patterns conflicts @ hotspot_patterns conflicts)"

text \<open>How often a kind occurs, and how often an entity is listed, in a conflict list.\<close>

definition kind_count :: "Conflict list \<Rightarrow> string \<Rightarrow> nat" where
  "kind_count conflicts k = length (filter (\<lambda>c. conflict_kind c = k) conflicts)"

definition entity_occurrences :: "Conflict list \<Rightarrow> string \<Rightarrow> nat" where
  "entity_occurrences conflicts e =
     (\<Sum>c \<leftarrow> conflicts. count_list (get_affected_entities c) e)"

definition count_at :: "('k \<times> nat) list \<Rightarrow> 'k \<Rightarrow> nat" where
  "count_at d k = (case map_of d k of None \<Rightarrow> 0 | Some n \<Rightarrow> n)"

definition length_at :: "('k \<times> 'v list) list \<Rightarrow> 'k \<Rightarrow> nat" where
  "length_at d k = (case map_of d k of None \<Rightarrow> 0 | Some vs \<Rightarrow> length vs)"

record ResolutionSuggestion =
  resolution_id :: string
  description :: string
  resolution_type :: string
  affected_sessions :: "string list"
  parameters :: pydict
  sug_score :: rat
  effort_level :: string
  impact_description :: string
  confidence :: rat

definition calculate_confidence :: "rat \<Rightarrow> string \<Rightarrow> rat" where
  "calculate_confidence score effort =
     (let effort_penalty = (if effort = ''low'' then 0 else if effort = ''medium'' then 0.1
                            else if effort = ''high'' then 0.2 else 0.2)
      in max 0 (min 1 (score - effort_penalty)))"

text \<open>The constructor \<^verbatim>\<open>ResolutionSuggestion.__init__\<close>.\<close>

definition new_suggestion ::
  "string \<Rightarrow> string \<Rightarrow> string \<Rightarrow> string list \<Rightarrow> pydict \<Rightarrow> rat \<Rightarrow> string \<Rightarrow> string
     \<Rightarrow> ResolutionSuggestion" where
  "new_suggestion rid descr rtype affected params score effort impact =
     \<lparr>resolution_id = rid, description = descr, resolution_type = rtype,
      affected_sessions = affected, parameters = params, sug_score = score,
      effort_level = effort, impact_description = impact,
      confidence = calculate_confidence score effort\<rparr>"

subsection \<open>Ranking (\<^verbatim>\<open>_rank_suggestions\<close>, last definition) and the suggestion entry point\<close>

text \<open>\<^verbatim>\<open>effort_order = {'low': 1, 'medium': 2, 'high': 3}\<close>, read with \<^verbatim>\<open>.get(level, 2)\<close>.\<close>

definition effort_order :: "string \<Rightarrow> nat" where
  "effort_order level = (if level = ''low'' then 1 else if level = ''medium'' then 2
                         else if level = ''high'' then 3 else 2)"

text \<open>The sort key \<^verbatim>\<open>(-s.score, effort_order.get(s.effort_level, 2))\<close>, compared as a tuple.\<close>

definition rank_key :: "ResolutionSuggestion \<Rightarrow> rat \<times> nat" where
  "rank_key s = (- sug_score s, effort_order (effort_level s))"

definition rank_suggestions :: "ResolutionSuggestion list \<Rightarrow> ResolutionSuggestion list" where
  "rank_suggestions suggestions = sort_key rank_key suggestions"

definition group_conflicts_by_type :: "Conflict list \<Rightarrow> (string \<times> Conflict list) list" where
  "group_conflicts_by_type conflicts =
     foldl (\<lambda>grouped conflict. append_at (conflict_kind conflict) conflict grouped) [] conflicts"

text \<open>
  \<^verbatim>\<open>generate_resolution_suggestions\<close>. The per-kind generators it dispatches to are a
  parameter \<open>strategies\<close>: what it does with their output is to concatenate it in group
  order, rank it, and slice it with \<^verbatim>\<open>[:max_suggestions]\<close>.
\<close>

definition generate_resolution_suggestions ::
  "(string \<Rightarrow> Conflict list \<Rightarrow> ResolutionSuggestion list) \<Rightarrow> Conflict list \<Rightarrow> int
     \<Rightarrow> ResolutionSuggestion list" where
  "generate_resolution_suggestions strategies conflicts max_suggestions =
     (let all_suggestions =
            concat (map (\<lambda>(conflict_type, type_conflicts). strategies conflict_type type_conflicts)
                      (group_conflicts_by_type conflicts));
          ranked_suggestions = rank_suggestions all_suggestions
      in py_take max_suggestions ranked_suggestions)"

subsection \<open>Suggestion evaluator (\<^verbatim>\<open>evaluate_suggestion_quality\<close>, last definition)\<close>





record RiskAssessment =
  risk_level :: string
  risk_factors :: "string list"
  mitigation_suggestions :: "string list"


record SuggestionEvaluation =
  overall_score :: rat
  eval_confidence :: rat
  feasibility_score :: rat
  impact_score :: rat
  effort_score :: rat
  risk_assessment :: RiskAssessment
  recommendation :: string


subsection \<open>Search driver (\<^verbatim>\<open>CSPSolver.solve\<close>)\<close>

text \<open>
  The CP-SAT engine is external. What \<^verbatim>\<open>solve\<close> does with it is modelled over the
  outcome of each step it runs inside its \<^verbatim>\<open>try\<close> block: a step either returns or
  raises an exception (a subclass of \<^verbatim>\<open>Exception\<close>, with its message \<^verbatim>\<open>str(e)\<close>).
  A step is only run when the steps before it have returned, so the outcomes recorded for
  later steps are not read after a raise. Log calls are not modelled.
\<close>

datatype cp_status = UNKNOWN | MODEL_INVALID | FEASIBLE | INFEASIBLE | OPTIMAL

datatype py_exception = TypeError string | AttributeError string | OtherException string

fun exception_message :: "py_exception \<Rightarrow> string" where
  "exception_message (TypeError m) = m"
| "exception_message (AttributeError m) = m"
| "exception_message (OtherException m) = m"

record solver_run =
  init_model :: "py_exception option"
  create_variables :: "py_exception option"
  add_hard_constraints :: "py_exception option"
  add_soft_constraints :: "py_exception option"
  set_objective :: "py_exception option"
  cp_solve :: "py_exception + cp_status"
  extracted_sessions :: "py_exception + ScheduledSessionModel list"
  processing_time :: rat
  error_time :: rat

text \<open>The inner handlers \<^verbatim>\<open>except (TypeError, AttributeError)\<close>: log a warning, go on.\<close>

fun is_mock_error :: "py_exception \<Rightarrow> bool" where
  "is_mock_error (TypeError m) = True"
| "is_mock_error (AttributeError m) = True"
| "is_mock_error (OtherException m) = False"

definition skip_mock_errors :: "py_exception option \<Rightarrow> py_exception option" where
  "skip_mock_errors step =
     (case step of None \<Rightarrow> None | Some e \<Rightarrow> if is_mock_error e then None else Some e)"

text \<open>Sequencing: a raise leaves the block, a return runs the rest.\<close>

definition and_then :: "py_exception option \<Rightarrow> (py_exception + 'a) \<Rightarrow> py_exception + 'a" where
  "and_then step rest = (case step of Some e \<Rightarrow> Inl e | None \<Rightarrow> rest)"

text \<open>\<^verbatim>\<open>_analyze_infeasibility\<close>\<close>

definition analyze_infeasibility :: "pydict list" where
  "analyze_infeasibility =
     [[(''type'', PStr ''infeasible_problem''),
       (''message'', PStr ''No feasible solution found with current constraints''),
       (''suggestion'',
        PStr ''Consider relaxing some constraints or adding more resources'')]]"

text \<open>
  \<^verbatim>\<open>_extract_solution\<close>, from the sessions read off the solved model: the solution is
  flagged feasible, scored and given its conflicts by the validator, and its metadata is
  filled in.
\<close>

definition extract_solution :: "ScheduledSessionModel list \<Rightarrow> SolutionModel" where
  "extract_solution ss =
     (let solution = \<lparr>sessions = ss, sol_score = 0, is_feasible = True,
                       sol_conflicts = [], metadata = []\<rparr>;
          validation_result = validate_solution solution
      in solution\<lparr>sol_score := val_score validation_result,
                  sol_conflicts := val_conflicts validation_result,
                  metadata :=
                    [(''total_sessions'', PNum (of_nat (length ss))),
                     (''unique_venues'', PNum (of_nat (card (set (map venue_id ss))))),
                     (''unique_lecturers'', PNum (of_nat (card (set (map lecturer_id ss))))),
                     (''optimization_score'', PNum (val_score validation_result))]\<rparr>)"

text \<open>The body of the \<^verbatim>\<open>try\<close> block.\<close>

definition solve_try :: "solver_run \<Rightarrow> py_exception + SolutionModel" where
  "solve_try r =
     and_then (init_model r)
    (and_then (create_variables r)
    (and_then (add_hard_constraints r)
    (and_then (skip_mock_errors (add_soft_constraints r))
    (and_then (skip_mock_errors (set_objective r))
    (case cp_solve r of
       Inl e \<Rightarrow> Inl e
     | Inr status \<Rightarrow>
         if status = OPTIMAL \<or> status = FEASIBLE
         then (case extracted_sessions r of
                 Inl e \<Rightarrow> Inl e
               | Inr ss \<Rightarrow>
                   (let solution = extract_solution ss
                    in Inr (solution\<lparr>metadata := metadata solution @
                              [(''processing_time'', PNum (processing_time r)),
                               (''solver_status'',
                                PStr (if status = OPTIMAL then ''optimal'' else ''feasible''))]\<rparr>)))
         else Inr \<lparr>sessions = [], sol_score = 0, is_feasible = False,
                   sol_conflicts = analyze_infeasibility,
                   metadata = [(''processing_time'', PNum (processing_time r)),
                               (''solver_status'', PStr ''infeasible'')]\<rparr>)))))"

text \<open>The outer handler \<^verbatim>\<open>except Exception as e\<close>.\<close>

definition solver_error_result :: "solver_run \<Rightarrow> py_exception \<Rightarrow> SolutionModel" where
  "solver_error_result r e =
     \<lparr>sessions = [], sol_score = 0, is_feasible = False,
      sol_conflicts = [[(''type'', PStr ''solver_error''),
                        (''message'', PStr (exception_message e))]],
      metadata = [(''processing_time'', PNum (error_time r))]\<rparr>"

definition solve :: "solver_run \<Rightarrow> SolutionModel" where
  "solve r = (case solve_try r of Inl e \<Rightarrow> solver_error_result r e | Inr solution \<Rightarrow> solution)"

text \<open>The steps before the search all returned, or were skipped by an inner handler.\<close>

definition model_built :: "solver_run \<Rightarrow> bool" where
  "model_built r \<longleftrightarrow>
     init_model r = None \<and> create_variables r = None \<and> add_hard_constraints r = None \<and>
     skip_mock_errors (add_soft_constraints r) = None \<and>
     skip_mock_errors (set_objective r) = None"

subsection \<open>Concrete schedules\<close>

text \<open>The empty schedule of \<^verbatim>\<open>test_empty_solution_handling\<close>.\<close>

definition empty_solution :: SolutionModel where
  "empty_solution = \<lparr>sessions = [], sol_score = 0, is_feasible = False,
                      sol_conflicts = [], metadata = []\<rparr>"

text \<open>
  Scenario S2 of the specification: two sessions on Monday 09:00 in \<^verbatim>\<open>room_a\<close>, with
  different lecturers and groups.
\<close>

definition session_a :: ScheduledSessionModel where
  "session_a = \<lparr>session_id = ''session_a'', course_id = ''math101'',
                 lecturer_id = ''prof_smith'', venue_id = ''room_a'',
                 student_groups = [''g1''],
                 start_time = \<lparr>hour = 9, minute = 0\<rparr>, end_time = \<lparr>hour = 10, minute = 0\<rparr>,
                 day_of_week = 0\<rparr>"

definition session_b :: ScheduledSessionModel where
  "session_b = \<lparr>session_id = ''session_b'', course_id = ''phys101'',
                 lecturer_id = ''prof_jones'', venue_id = ''room_a'',
                 student_groups = [''g2''],
                 start_time = \<lparr>hour = 9, minute = 0\<rparr>, end_time = \<lparr>hour = 10, minute = 0\<rparr>,
                 day_of_week = 0\<rparr>"

definition double_booked_solution :: SolutionModel where
  "double_booked_solution = \<lparr>sessions = [session_a, session_b], sol_score = 0,
                              is_feasible = True, sol_conflicts = [], metadata = []\<rparr>"

text \<open>
  A single session that breaks the capacity, equipment and availability rules at once:
  75 students in a room for 50 (scenario S3), a projector required where there is none,
  and a lecturer who is only available from 09:00 teaching at 08:00.
\<close>

definition session_d :: ScheduledSessionModel where
  "session_d = \<lparr>session_id = ''session_d'', course_id = ''chem101'',
                 lecturer_id = ''prof_smith'', venue_id = ''room_d'',
                 student_groups = [''g3''],
                 start_time = \<lparr>hour = 8, minute = 0\<rparr>, end_time = \<lparr>hour = 9, minute = 0\<rparr>,
                 day_of_week = 0\<rparr>"

definition overfull_entities :: Entities where
  "overfull_entities =
     \<lparr>ent_venues = [\<lparr>venue_ident = ''room_d'', venue_name = ''Room D'',
                      capacity = Some 50, equipment = Some []\<rparr>],
      ent_lecturers = [\<lparr>lecturer_ident = ''prof_smith'',
                         availability = [(''0'', [\<lparr>start_hour = Some 9, end_hour = Some 17\<rparr>])]\<rparr>],
      ent_courses = [\<lparr>course_ident = ''chem101'', required_equipment = Some [''projector''],
                       course_student_groups = Some [''g3'']\<rparr>],
      ent_student_groups = [\<lparr>group_ident = ''g3'', group_size = Some 75\<rparr>]\<rparr>"

definition overfull_solution :: SolutionModel where
  "overfull_solution = \<lparr>sessions = [session_d], sol_score = 0, is_feasible = True,
                         sol_conflicts = [], metadata = []\<rparr>"

text \<open>The same single session in a solution flagged infeasible.\<close>

definition flagged_infeasible_solution :: SolutionModel where
  "flagged_infeasible_solution = \<lparr>sessions = [session_d], sol_score = 0, is_feasible = False,
                                   sol_conflicts = [], metadata = []\<rparr>"

text \<open>Six halls, each large enough and equipped for \<open>session_d\<close>.\<close>

definition hall :: "string \<Rightarrow> int \<Rightarrow> Venue" where
  "hall name cap = \<lparr>venue_ident = name, venue_name = name, capacity = Some cap,
                    equipment = Some [''projector'', ''whiteboard'']\<rparr>"

definition six_halls :: "Venue list" where
  "six_halls = [hall ''hall_1'' 200, hall ''hall_2'' 80, hall ''hall_3'' 120,
                hall ''hall_4'' 75, hall ''hall_5'' 300, hall ''hall_6'' 90]"

text \<open>Three suggestions: two with the same score and different effort, one scoring higher.\<close>

definition suggestion_split :: ResolutionSuggestion where
  "suggestion_split = new_suggestion ''split_session_a'' ''Split the groups of math101''
     ''split_group'' [''session_a''] [(''session_id'', PStr ''session_a'')] 0.7 ''high''
     ''Creates parallel sessions''"

definition suggestion_reschedule :: ResolutionSuggestion where
  "suggestion_reschedule = new_suggestion ''reschedule_session_a'' ''Reschedule math101''
     ''reschedule'' [''session_a'']
     [(''session_id'', PStr ''session_a''), (''new_time'', PStr ''Monday 10:00'')] 0.7 ''medium''
     ''Changes session timing''"

definition suggestion_move :: ResolutionSuggestion where
  "suggestion_move = new_suggestion ''venue_move_session_a'' ''Move math101 to Room E''
     ''reassign_venue'' [''session_a'']
     [(''session_id'', PStr ''session_a''), (''new_venue_id'', PStr ''room_e'')] 0.8 ''low''
     ''Changes venue location for one session''"

definition venue_conflict :: Conflict where
  "venue_conflict = \<lparr>ctype = Some ''venue_double_booking'',
                      affected_entities = Some [''room_a''],
                      session_ids = Some [''session_a'', ''session_b'']\<rparr>"

text \<open>A dispatch that answers a venue double-booking with the three suggestions above.\<close>

definition sample_strategies :: "string \<Rightarrow> Conflict list \<Rightarrow> ResolutionSuggestion list" where
  "sample_strategies kind type_conflicts =
     (if kind = ''venue_double_booking''
      then [suggestion_split, suggestion_reschedule, suggestion_move] else [])"

text \<open>
  Scenario S5 of the specification: six conflicts, two venue double-bookings, two
  lecturer conflicts and two kinds that occur once; \<^verbatim>\<open>room_a\<close> is listed in three.
\<close>

definition mk_conflict :: "string \<Rightarrow> string list \<Rightarrow> string list \<Rightarrow> Conflict" where
  "mk_conflict kind ents ids =
     \<lparr>ctype = Some kind, affected_entities = Some ents, session_ids = Some ids\<rparr>"

definition six_conflicts :: "Conflict list" where
  "six_conflicts =
     [mk_conflict ''venue_double_booking'' [''room_a''] [''s1'', ''s2''],
      mk_conflict ''venue_double_booking'' [''room_a''] [''s3'', ''s4''],
      mk_conflict ''lecturer_conflict'' [''prof_smith''] [''s1'', ''s5''],
      mk_conflict ''lecturer_conflict'' [''prof_smith'', ''room_a''] [''s2'', ''s6''],
      mk_conflict ''capacity_exceeded'' [''room_d''] [''s7''],
      mk_conflict ''equipment_conflict'' [''room_d''] [''s8'']]"


text \<open>
  Three runs: scenario S6, where the search reports infeasibility; a run under test mocks,
  where adding the soft constraints raises a \<^verbatim>\<open>TypeError\<close> and the search then reports
  an optimal solution; and a run whose variable creation raises.
\<close>

definition infeasible_run :: solver_run where
  "infeasible_run =
     \<lparr>init_model = None, create_variables = None, add_hard_constraints = None,
      add_soft_constraints = None, set_objective = None, cp_solve = Inr INFEASIBLE,
      extracted_sessions = Inr [], processing_time = 1, error_time = 1\<rparr>"

definition mocked_run :: solver_run where
  "mocked_run =
     \<lparr>init_model = None, create_variables = None, add_hard_constraints = None,
      add_soft_constraints = Some (TypeError ''unsupported operand type''),
      set_objective = None, cp_solve = Inr OPTIMAL,
      extracted_sessions = Inr [session_a], processing_time = 1, error_time = 1\<rparr>"

definition failing_run :: solver_run where
  "failing_run =
     \<lparr>init_model = None, create_variables = Some (OtherException ''id''),
      add_hard_constraints = None, add_soft_constraints = None, set_objective = None,
      cp_solve = Inr OPTIMAL, extracted_sessions = Inr [session_a],
      processing_time = 1, error_time = 1\<rparr>"

section \<open>Verification\<close>

subsection \<open>Time keys\<close>

text \<open>
  The time key \<^verbatim>\<open>f"{day}_{hour}"\<close> determines the day and the hour: two sessions have
  the same key exactly when they are on the same day at the same hour.
\<close>

lemma digit_inj: "a < 10 \<Longrightarrow> b < 10 \<Longrightarrow> ''0123456789'' ! a = ''0123456789'' ! b \<Longrightarrow> a = b"
  by (simp add: nth_eq_iff_index_eq)

lemma digit_in: "a < 10 \<Longrightarrow> ''0123456789'' ! a \<in> set ''0123456789''"
  by (rule nth_mem) simp

lemma string_of_nat_digits: "set (string_of_nat n) \<subseteq> set ''0123456789''"
proof (induction n rule: string_of_nat.induct)
  case (1 n)
  show ?case
  proof (cases "n < 10")
    case True
    then show ?thesis using digit_in [of n] by (subst string_of_nat.simps) simp
  next
    case False
    have "n mod 10 < 10" by simp
    from digit_in [OF this] 1 False show ?thesis by (subst string_of_nat.simps) simp
  qed
qed

lemma string_of_nat_nonempty: "string_of_nat n \<noteq> []"
  by (subst string_of_nat.simps) simp

lemma string_of_nat_inj: "string_of_nat m = string_of_nat n \<Longrightarrow> m = n"
proof (induction m arbitrary: n rule: string_of_nat.induct)
  case (1 m)
  show ?case
  proof (cases "m < 10")
    case m: True
    show ?thesis
    proof (cases "n < 10")
      case True
      with m 1(2) show ?thesis
        by (simp add: string_of_nat.simps [of m] string_of_nat.simps [of n] digit_inj)
    next
      case False
      with m 1(2) string_of_nat_nonempty [of "n div 10"] show ?thesis
        by (simp add: string_of_nat.simps [of m] string_of_nat.simps [of n] Cons_eq_append_conv)
    qed
  next
    case m: False
    show ?thesis
    proof (cases "n < 10")
      case True
      with m 1(2) string_of_nat_nonempty [of "m div 10"] show ?thesis
        by (simp add: string_of_nat.simps [of m] string_of_nat.simps [of n] append_eq_Cons_conv)
    next
      case False
      with m 1(2) have e: "string_of_nat (m div 10) = string_of_nat (n div 10)"
        "''0123456789'' ! (m mod 10) = ''0123456789'' ! (n mod 10)"
        by (simp_all add: string_of_nat.simps [of m] string_of_nat.simps [of n])
      from 1(1) [OF m e(1)] have "m div 10 = n div 10" .
      moreover from e(2) have "m mod 10 = n mod 10" by (intro digit_inj) simp_all
      ultimately show ?thesis by (metis div_mult_mod_eq)
    qed
  qed
qed

lemma py_str_chars: "CHR ''_'' \<notin> set (py_str i)"
  using string_of_nat_digits [of "nat i"] string_of_nat_digits [of "nat (- i)"]
  by (auto simp: py_str_def)

lemma py_str_inj: "py_str i = py_str j \<Longrightarrow> i = j"
proof -
  assume a: "py_str i = py_str j"
  have nd: "\<And>n. hd (string_of_nat n) \<noteq> CHR ''-''"
  proof -
    fix n
    have "hd (string_of_nat n) \<in> set (string_of_nat n)"
      using string_of_nat_nonempty by (rule hd_in_set)
    with string_of_nat_digits [of n] show "hd (string_of_nat n) \<noteq> CHR ''-''" by auto
  qed
  show "i = j"
  proof (cases "i < 0")
    case i: True
    show ?thesis
    proof (cases "j < 0")
      case True
      with i a have "nat (- i) = nat (- j)" by (simp add: py_str_def string_of_nat_inj)
      with i True show ?thesis by simp
    next
      case False
      with i a have "hd (string_of_nat (nat j)) = CHR ''-''" by (simp add: py_str_def) (metis list.sel(1))
      with nd show ?thesis by simp
    qed
  next
    case i: False
    show ?thesis
    proof (cases "j < 0")
      case True
      with i a have "hd (string_of_nat (nat i)) = CHR ''-''" by (simp add: py_str_def)
      with nd show ?thesis by simp
    next
      case False
      with i a have "nat i = nat j" by (simp add: py_str_def string_of_nat_inj)
      with i False show ?thesis by simp
    qed
  qed
qed

lemma time_key_eq_iff:
  "time_key s = time_key s' \<longleftrightarrow>
     day_of_week s = day_of_week s' \<and> hour (start_time s) = hour (start_time s')"
proof
  assume "time_key s = time_key s'"
  then have "py_str (day_of_week s) @ CHR ''_'' # py_str (hour (start_time s)) =
             py_str (day_of_week s') @ CHR ''_'' # py_str (hour (start_time s'))"
    by (simp add: time_key_def)
  then have "py_str (day_of_week s) = py_str (day_of_week s') \<and>
             py_str (hour (start_time s)) = py_str (hour (start_time s'))"
    using py_str_chars by (simp add: append_Cons_eq_iff)
  then show "day_of_week s = day_of_week s' \<and> hour (start_time s) = hour (start_time s')"
    by (simp add: py_str_inj)
next
  assume "day_of_week s = day_of_week s' \<and> hour (start_time s) = hour (start_time s')"
  then show "time_key s = time_key s'" by (simp add: time_key_def)
qed

lemma distinct_map_same_kernel:
  assumes "\<And>x y. f x = f y \<longleftrightarrow> g x = g y"
  shows "distinct (map f xs) \<longleftrightarrow> distinct (map g xs)"
  by (simp add: distinct_map inj_on_def assms)

lemma distinct_time_key_iff:
  "distinct (map (\<lambda>s. (venue_id s, time_key s)) ss) \<longleftrightarrow>
     distinct (map (\<lambda>s. (venue_id s, day_of_week s, hour (start_time s))) ss)"
  "distinct (map (\<lambda>s. (lecturer_id s, time_key s)) ss) \<longleftrightarrow>
     distinct (map (\<lambda>s. (lecturer_id s, day_of_week s, hour (start_time s))) ss)"
  by (rule distinct_map_same_kernel, simp add: time_key_eq_iff)+

subsection \<open>The hard-constraint loop\<close>

lemma venue_check_bookings:
  "bookings_of (venue_bookings (venue_check s st)) v =
     (if v = venue_id s then insert (time_key s) (bookings_of (venue_bookings st) v)
      else bookings_of (venue_bookings st) v)"
  by (auto simp: venue_check_def Let_def bookings_of_def split: option.splits)

lemma venue_check_other:
  "lecturer_bookings (venue_check s st) = lecturer_bookings st"
  "total_checks (venue_check s st) = total_checks st + 1"
  "passed_checks (venue_check s st) =
     passed_checks st + (if time_key s \<in> bookings_of (venue_bookings st) (venue_id s) then 0 else 1)"
  "length (violations (venue_check s st)) =
     length (violations st) + (if time_key s \<in> bookings_of (venue_bookings st) (venue_id s) then 1 else 0)"
  by (auto simp: venue_check_def Let_def bookings_of_def split: option.splits)

lemma lecturer_check_bookings:
  "bookings_of (lecturer_bookings (lecturer_check s st)) v =
     (if v = lecturer_id s then insert (time_key s) (bookings_of (lecturer_bookings st) v)
      else bookings_of (lecturer_bookings st) v)"
  by (auto simp: lecturer_check_def Let_def bookings_of_def split: option.splits)

lemma lecturer_check_other:
  "venue_bookings (lecturer_check s st) = venue_bookings st"
  "total_checks (lecturer_check s st) = total_checks st + 1"
  "passed_checks (lecturer_check s st) =
     passed_checks st + (if time_key s \<in> bookings_of (lecturer_bookings st) (lecturer_id s) then 0 else 1)"
  "length (violations (lecturer_check s st)) =
     length (violations st) + (if time_key s \<in> bookings_of (lecturer_bookings st) (lecturer_id s) then 1 else 0)"
  by (auto simp: lecturer_check_def Let_def bookings_of_def split: option.splits)

lemma hc_run_snoc: "hc_run (ss @ [s]) = hc_step (hc_run ss) s"
  by (simp add: hc_run_def)

lemma hc_run_Nil: "hc_run [] = hc_init"
  by (simp add: hc_run_def)

lemma slots_snoc:
  "venue_slots (ss @ [s]) = insert (venue_id s, time_key s) (venue_slots ss)"
  "lecturer_slots (ss @ [s]) = insert (lecturer_id s, time_key s) (lecturer_slots ss)"
  by (auto simp: venue_slots_def lecturer_slots_def)

text \<open>After the loop the booking dictionaries hold exactly the occupied pairs.\<close>

lemma hc_run_venue_bookings:
  "(t \<in> bookings_of (venue_bookings (hc_run ss)) v) = ((v, t) \<in> venue_slots ss)"
proof (induction ss rule: rev_induct)
  case Nil
  show ?case by (simp add: hc_run_Nil hc_init_def bookings_of_def venue_slots_def)
next
  case (snoc s ss)
  then show ?case
    by (auto simp: hc_run_snoc hc_step_def lecturer_check_other venue_check_bookings slots_snoc)
qed

lemma hc_run_lecturer_bookings:
  "(t \<in> bookings_of (lecturer_bookings (hc_run ss)) v) = ((v, t) \<in> lecturer_slots ss)"
proof (induction ss rule: rev_induct)
  case Nil
  show ?case by (simp add: hc_run_Nil hc_init_def bookings_of_def lecturer_slots_def)
next
  case (snoc s ss)
  then show ?case
    by (auto simp: hc_run_snoc hc_step_def venue_check_other lecturer_check_bookings slots_snoc)
qed

lemma finite_slots [simp]: "finite (venue_slots ss)" "finite (lecturer_slots ss)"
  by (simp_all add: venue_slots_def lecturer_slots_def)

text \<open>Two checks per session; a check passes when it books a pair not seen before.\<close>

lemma hc_run_total: "total_checks (hc_run ss) = 2 * length ss"
  by (induction ss rule: rev_induct)
     (simp_all add: hc_run_Nil hc_init_def hc_run_snoc hc_step_def venue_check_other lecturer_check_other)

lemma hc_run_passed:
  "passed_checks (hc_run ss) = card (venue_slots ss) + card (lecturer_slots ss)"
proof (induction ss rule: rev_induct)
  case Nil
  show ?case by (simp add: hc_run_Nil hc_init_def venue_slots_def lecturer_slots_def)
next
  case (snoc s ss)
  show ?case
    by (simp add: hc_run_snoc hc_step_def venue_check_other lecturer_check_other
        hc_run_venue_bookings hc_run_lecturer_bookings slots_snoc snoc.IH card_insert_if)
qed

lemma hc_run_violations:
  "length (violations (hc_run ss)) + passed_checks (hc_run ss) = total_checks (hc_run ss)"
  by (induction ss rule: rev_induct)
     (simp_all add: hc_run_Nil hc_init_def hc_run_snoc hc_step_def venue_check_other lecturer_check_other)

lemma card_image_set_le: "card (f ` set xs) \<le> length xs"
  using card_length [of "map f xs"] by simp

lemma card_image_set_distinct: "card (f ` set xs) = length xs \<longleftrightarrow> distinct (map f xs)"
  using card_distinct [of "map f xs"] distinct_card [of "map f xs"] by auto

lemma card_slots_le:
  "card (venue_slots ss) \<le> length ss" "card (lecturer_slots ss) \<le> length ss"
  unfolding venue_slots_def lecturer_slots_def by (rule card_image_set_le)+

lemma card_slots_distinct:
  "card (venue_slots ss) = length ss \<longleftrightarrow> distinct (map (\<lambda>s. (venue_id s, time_key s)) ss)"
  "card (lecturer_slots ss) = length ss \<longleftrightarrow> distinct (map (\<lambda>s. (lecturer_id s, time_key s)) ss)"
  unfolding venue_slots_def lecturer_slots_def by (rule card_image_set_distinct)+

lemma violations_empty_iff:
  "violations (hc_run ss) = [] \<longleftrightarrow>
     distinct (map (\<lambda>s. (venue_id s, time_key s)) ss) \<and>
     distinct (map (\<lambda>s. (lecturer_id s, time_key s)) ss)"
proof -
  have "violations (hc_run ss) = [] \<longleftrightarrow> passed_checks (hc_run ss) = total_checks (hc_run ss)"
    using hc_run_violations [of ss] by auto
  also have "\<dots> \<longleftrightarrow> card (venue_slots ss) + card (lecturer_slots ss) = 2 * length ss"
    by (simp add: hc_run_passed hc_run_total)
  also have "\<dots> \<longleftrightarrow> card (venue_slots ss) = length ss \<and> card (lecturer_slots ss) = length ss"
    using card_slots_le [of ss] by auto
  finally show ?thesis by (simp add: card_slots_distinct)
qed

lemma hc_run_violation_types:
  "c \<in> set (violations (hc_run ss)) \<Longrightarrow>
     map_of c ''type'' = Some (PStr ''venue_double_booking'') \<or>
     map_of c ''type'' = Some (PStr ''lecturer_double_booking'')"
proof (induction ss arbitrary: c rule: rev_induct)
  case Nil
  then show ?case by (simp add: hc_run_Nil hc_init_def)
next
  case (snoc s ss)
  then show ?case
    by (auto simp: hc_run_snoc hc_step_def venue_check_def lecturer_check_def Let_def split: if_splits)
qed

subsection \<open>The validator\<close>

lemma hard_score_lt_1_iff:
  "fst (validate_hard_constraints solution) < 1 \<longleftrightarrow> violations (hc_run (sessions solution)) \<noteq> []"
proof -
  let ?st = "hc_run (sessions solution)"
  show ?thesis
  proof (cases "total_checks ?st = 0")
    case True
    then have "violations ?st = []" using hc_run_violations [of "sessions solution"] by simp
    with True show ?thesis by (simp add: validate_hard_constraints_def Let_def)
  next
    case False
    then have pos: "(0::rat) < of_nat (total_checks ?st)" by simp
    have "fst (validate_hard_constraints solution) < 1 \<longleftrightarrow>
            (of_nat (passed_checks ?st) :: rat) < of_nat (total_checks ?st)"
      using False pos by (simp add: validate_hard_constraints_def Let_def divide_less_eq)
    also have "\<dots> \<longleftrightarrow> passed_checks ?st < total_checks ?st" by simp
    also have "\<dots> \<longleftrightarrow> violations ?st \<noteq> []"
      using hc_run_violations [of "sessions solution"]
      by (cases "violations ?st") auto
    finally show ?thesis .
  qed
qed

lemma validate_solution_conflicts:
  "val_conflicts (validate_solution solution) = violations (hc_run (sessions solution))"
  "constraint_violations (validate_solution solution) = violations (hc_run (sessions solution))"
  "is_valid (validate_solution solution) \<longleftrightarrow> violations (hc_run (sessions solution)) = []"
  using hard_score_lt_1_iff [of solution]
  by (auto simp: validate_solution_def Let_def validate_hard_constraints_def split: prod.splits)

lemma validate_solution_empty:
  assumes "sessions solution = []"
  shows "val_conflicts (validate_solution solution) = [] \<and> is_valid (validate_solution solution)
     \<and> val_score (validate_solution solution) = (if is_feasible solution then 3/4 else 2/5)"
  using assms
  by (simp add: validate_solution_def validate_hard_constraints_def hc_run_Nil hc_init_def Let_def
      calculate_venue_utilization_score_def calculate_lecturer_satisfaction_score_def
      calculate_student_convenience_score_def calculate_efficiency_score_def)

subsection \<open>C1: the empty schedule\<close>

text \<open>
  C1, as stated: for the empty schedule the validator returns no conflicts,
  \<open>is_valid = true\<close> and score 0. The score is not 0: the hard-constraint score of an
  empty schedule is 1 (no checks evaluated), which alone contributes 0.4. At the empty,
  infeasible-flagged schedule of the repository's own test the three parts do not hold
  together.
\<close>

theorem C1_empty_score_zero_counterexample:
  "\<not> (val_conflicts (validate_solution empty_solution) = [] \<and>
       is_valid (validate_solution empty_solution) \<and>
       val_score (validate_solution empty_solution) = 0)"
  using validate_solution_empty [of empty_solution] by (simp add: empty_solution_def)

text \<open>
  C1, amended: for every solution whose session list is empty, the validator returns an
  empty conflicts list and \<open>is_valid = true\<close>, and the score is 0.4 when the solution is
  flagged infeasible and 0.75 when it is flagged feasible (0.4 for the hard constraints,
  plus 0.20 and 0.15 for lecturer satisfaction and student convenience, which are 1 on an
  empty schedule; venue utilization and efficiency are 0).
\<close>

theorem C1_empty_schedule_valid:
  assumes "sessions solution = []"
  shows "val_conflicts (validate_solution solution) = [] \<and>
         is_valid (validate_solution solution) \<and>
         val_score (validate_solution solution) = (if is_feasible solution then 0.75 else 0.4)"
  using validate_solution_empty [OF assms] by simp

theorem C1_empty_schedule_valid_witness:
  "sessions empty_solution = [] \<and>
   val_conflicts (validate_solution empty_solution) = [] \<and>
   is_valid (validate_solution empty_solution) \<and>
   val_score (validate_solution empty_solution) = 0.4"
  using C1_empty_schedule_valid [of empty_solution] by (simp add: empty_solution_def)

subsection \<open>C2: what the validator re-checks\<close>

text \<open>
  C2, as stated: for each session the validator re-checks all eight invariants of the
  data model, in particular venue capacity against the attending group sizes, venue
  equipment against the course's requirement, and lecturer availability at the slot.
  It does not: \<^verbatim>\<open>validate_solution\<close> receives the schedule alone, no entities, and
  only scans for (venue, slot) and (lecturer, slot) collisions. A session of 75 students
  in a room for 50, without the required projector, at an hour when its lecturer is not
  available, validates with no conflict.
\<close>

theorem C2_validator_misses_invariants_counterexample:
  "is_valid (validate_solution overfull_solution) \<and>
   val_conflicts (validate_solution overfull_solution) = [] \<and>
   sessions overfull_solution = [session_d] \<and>
   \<not> capacity_invariant overfull_entities session_d \<and>
   \<not> equipment_invariant overfull_entities session_d \<and>
   \<not> availability_invariant overfull_entities session_d"
proof -
  have "violations (hc_run (sessions overfull_solution)) = []"
    by (simp add: violations_empty_iff overfull_solution_def)
  moreover have "\<not> capacity_invariant overfull_entities session_d"
    by (simp add: capacity_invariant_def overfull_entities_def session_d_def total_students_def
        get_capacity_def get_size_def get_course_groups_def)
  moreover have "\<not> equipment_invariant overfull_entities session_d"
    by (simp add: equipment_invariant_def overfull_entities_def session_d_def
        get_equipment_def get_required_equipment_def)
  moreover have "\<not> availability_invariant overfull_entities session_d"
    by (simp add: availability_invariant_def overfull_entities_def session_d_def is_available_def
        py_str_def string_of_nat.simps)
  ultimately show ?thesis
    by (simp add: validate_solution_conflicts overfull_solution_def)
qed

text \<open>
  C2, amended: for every supplied schedule the validator checks, session by session,
  venue double-booking and lecturer double-booking only. The result is valid exactly when
  no two sessions of the list share a venue, a day and an hour, and no two share a
  lecturer, a day and an hour; the conflicts it reports are the recorded violations, each
  of type \<^verbatim>\<open>venue_double_booking\<close> or \<^verbatim>\<open>lecturer_double_booking\<close>.
\<close>

theorem C2_validator_checks_double_booking_only:
  "(is_valid (validate_solution solution) \<longleftrightarrow>
      distinct (map (\<lambda>s. (venue_id s, day_of_week s, hour (start_time s))) (sessions solution)) \<and>
      distinct (map (\<lambda>s. (lecturer_id s, day_of_week s, hour (start_time s)))
                  (sessions solution))) \<and>
   val_conflicts (validate_solution solution) = constraint_violations (validate_solution solution) \<and>
   (\<forall>c \<in> set (val_conflicts (validate_solution solution)).
      map_of c ''type'' = Some (PStr ''venue_double_booking'') \<or>
      map_of c ''type'' = Some (PStr ''lecturer_double_booking''))"
  by (simp add: validate_solution_conflicts violations_empty_iff distinct_time_key_iff
      hc_run_violation_types)

theorem C2_validator_checks_double_booking_only_witness:
  "\<not> is_valid (validate_solution double_booked_solution) \<and>
   \<not> distinct (map (\<lambda>s. (venue_id s, day_of_week s, hour (start_time s)))
                   (sessions double_booked_solution)) \<and>
   map_of (hd (val_conflicts (validate_solution double_booked_solution))) ''type''
     = Some (PStr ''venue_double_booking'')"
proof -
  have v: "val_conflicts (validate_solution double_booked_solution) =
      [[(''type'', PStr ''venue_double_booking''), (''venue_id'', PStr ''room_a''),
        (''time'', PStr ''0_9''), (''sessions'', PStrList [''session_b''])]]"
    by (simp add: validate_solution_conflicts double_booked_solution_def hc_run_def hc_step_def
        venue_check_def lecturer_check_def hc_init_def Let_def bookings_of_def time_key_def
        session_a_def session_b_def py_str_def string_of_nat.simps)
  have d: "\<not> distinct (map (\<lambda>s. (venue_id s, day_of_week s, hour (start_time s)))
                          (sessions double_booked_solution))"
    by (simp add: double_booked_solution_def session_a_def session_b_def)
  from C2_validator_checks_double_booking_only [of double_booked_solution] d
  have "\<not> is_valid (validate_solution double_booked_solution)" by simp
  with d show ?thesis by (simp add: v)
qed

subsection \<open>C3: the score decomposition\<close>

text \<open>
  C3, as stated: for every schedule the overall score is
  \<open>0.4 hard + 0.15 venue utilization + 0.20 lecturer satisfaction + 0.15 student
  convenience + 0.10 efficiency\<close>. The four soft scores are only computed under
  \<^verbatim>\<open>if solution.is_feasible\<close>; for a solution flagged infeasible they stay 0. A
  one-session schedule flagged infeasible scores 0.4, not the weighted sum.
\<close>

theorem C3_score_infeasible_flag_counterexample:
  "val_score (validate_solution flagged_infeasible_solution) = 0.4 \<and>
   0.4 * fst (validate_hard_constraints flagged_infeasible_solution)
     + 0.15 * calculate_venue_utilization_score flagged_infeasible_solution
     + 0.20 * calculate_lecturer_satisfaction_score flagged_infeasible_solution
     + 0.15 * calculate_student_convenience_score flagged_infeasible_solution
     + 0.10 * calculate_efficiency_score flagged_infeasible_solution = 271 / 300 \<and>
   val_score (validate_solution flagged_infeasible_solution) \<noteq>
     0.4 * fst (validate_hard_constraints flagged_infeasible_solution)
     + 0.15 * calculate_venue_utilization_score flagged_infeasible_solution
     + 0.20 * calculate_lecturer_satisfaction_score flagged_infeasible_solution
     + 0.15 * calculate_student_convenience_score flagged_infeasible_solution
     + 0.10 * calculate_efficiency_score flagged_infeasible_solution"
proof -
  have a: "val_score (validate_solution flagged_infeasible_solution) = 0.4"
    by (simp add: validate_solution_def validate_hard_constraints_def
        flagged_infeasible_solution_def hc_run_def hc_step_def venue_check_def
        lecturer_check_def hc_init_def Let_def bookings_of_def)
  have b: "0.4 * fst (validate_hard_constraints flagged_infeasible_solution)
     + 0.15 * calculate_venue_utilization_score flagged_infeasible_solution
     + 0.20 * calculate_lecturer_satisfaction_score flagged_infeasible_solution
     + 0.15 * calculate_student_convenience_score flagged_infeasible_solution
     + 0.10 * calculate_efficiency_score flagged_infeasible_solution = 271 / 300"
    by (simp add: validate_hard_constraints_def flagged_infeasible_solution_def
        hc_run_def hc_step_def venue_check_def lecturer_check_def hc_init_def Let_def bookings_of_def
        calculate_venue_utilization_score_def calculate_lecturer_satisfaction_score_def
        calculate_student_convenience_score_def calculate_efficiency_score_def
        count_by_def group_schedules_def session_d_def)
  show ?thesis unfolding a b by simp
qed

text \<open>
  C3, amended: for every schedule whose \<open>is_feasible\<close> flag is set, the overall score is
  \<open>0.4 hard + 0.15 venue utilization + 0.20 lecturer satisfaction + 0.15 student
  convenience + 0.10 efficiency\<close>; when the flag is not set it is \<open>0.4 hard\<close>. The hard
  score is the number of checks passed over the number evaluated, and 1 when none is
  evaluated; two checks are evaluated per session, and the checks passed are the
  distinct (venue, time key) pairs plus the distinct (lecturer, time key) pairs.
\<close>

theorem C3_score_decomposition:
  "val_score (validate_solution solution) =
     (if is_feasible solution
      then 0.4 * fst (validate_hard_constraints solution)
           + 0.15 * calculate_venue_utilization_score solution
           + 0.20 * calculate_lecturer_satisfaction_score solution
           + 0.15 * calculate_student_convenience_score solution
           + 0.10 * calculate_efficiency_score solution
      else 0.4 * fst (validate_hard_constraints solution)) \<and>
   fst (validate_hard_constraints solution) =
     (if total_checks (hc_run (sessions solution)) = 0 then 1
      else of_nat (passed_checks (hc_run (sessions solution)))
           / of_nat (total_checks (hc_run (sessions solution)))) \<and>
   total_checks (hc_run (sessions solution)) = 2 * length (sessions solution) \<and>
   passed_checks (hc_run (sessions solution)) =
     card (venue_slots (sessions solution)) + card (lecturer_slots (sessions solution))"
proof -
  have "val_score (validate_solution solution) =
     (if is_feasible solution
      then 0.4 * fst (validate_hard_constraints solution)
           + 0.15 * calculate_venue_utilization_score solution
           + 0.20 * calculate_lecturer_satisfaction_score solution
           + 0.15 * calculate_student_convenience_score solution
           + 0.10 * calculate_efficiency_score solution
      else 0.4 * fst (validate_hard_constraints solution))"
    by (simp add: validate_solution_def Let_def split: prod.splits)
  moreover have "fst (validate_hard_constraints solution) =
     (if total_checks (hc_run (sessions solution)) = 0 then 1
      else of_nat (passed_checks (hc_run (sessions solution)))
           / of_nat (total_checks (hc_run (sessions solution))))"
    by (simp add: validate_hard_constraints_def Let_def)
  ultimately show ?thesis
    using hc_run_total [of "sessions solution"] hc_run_passed [of "sessions solution"] by simp
qed

theorem C3_score_decomposition_witness:
  "val_score (validate_solution double_booked_solution) = 241 / 300 \<and>
   fst (validate_hard_constraints double_booked_solution) = 3 / 4 \<and>
   passed_checks (hc_run (sessions double_booked_solution)) = 3"
proof -
  have tk: "time_key session_a = ''0_9''" "time_key session_b = ''0_9''"
    by (simp_all add: time_key_def session_a_def session_b_def py_str_def string_of_nat.simps)
  have slots: "venue_slots (sessions double_booked_solution) = {(''room_a'', ''0_9'')}"
    "lecturer_slots (sessions double_booked_solution) =
       {(''prof_smith'', ''0_9''), (''prof_jones'', ''0_9'')}"
    by (auto simp: venue_slots_def lecturer_slots_def double_booked_solution_def tk)
       (simp_all add: session_a_def session_b_def)
  have soft: "calculate_venue_utilization_score double_booked_solution = 1"
    "calculate_lecturer_satisfaction_score double_booked_solution = 1"
    "calculate_student_convenience_score double_booked_solution = 1"
    "calculate_efficiency_score double_booked_solution = 1 / 30"
    by (simp_all add: double_booked_solution_def
        calculate_venue_utilization_score_def calculate_lecturer_satisfaction_score_def
        calculate_student_convenience_score_def calculate_efficiency_score_def
        count_by_def group_schedules_def Let_def tk)
       (simp_all add: session_a_def session_b_def)
  have flag: "is_feasible double_booked_solution"
    and len: "length (sessions double_booked_solution) = 2"
    by (simp_all add: double_booked_solution_def)
  have cards: "card (venue_slots (sessions double_booked_solution)) = 1"
    "card (lecturer_slots (sessions double_booked_solution)) = 2"
    by (simp_all add: slots)
  show ?thesis
    using C3_score_decomposition [of double_booked_solution]
    by (simp add: cards soft flag len)
qed

subsection \<open>C4: alternative time slots\<close>

text \<open>The two loops with their early exits compute a prefix of the usable slots.\<close>

lemma hours_loop_eq:
  "length acc < 5 \<Longrightarrow>
   hours_loop session all_sessions day hs acc =
     take 5 (acc @ map (time_str day)
       (filter (\<lambda>h. \<not> (day = day_of_week session \<and> h = hour (start_time session)) \<and>
                     time_slot_free session all_sessions day h) hs))"
proof (induction hs arbitrary: acc)
  case Nil
  then show ?case by simp
next
  case (Cons h hs)
  show ?case
  proof (cases "\<not> (day = day_of_week session \<and> h = hour (start_time session)) \<and>
                 time_slot_free session all_sessions day h")
    case False
    then show ?thesis using Cons by auto
  next
    case True
    then have ns: "\<not> (day = day_of_week session \<and> h = hour (start_time session))"
      and fr: "time_slot_free session all_sessions day h" by simp_all
    show ?thesis
    proof (cases "length acc = 4")
      case True
      with ns fr show ?thesis by (auto simp: Let_def)
    next
      case False
      with Cons.prems have "length (acc @ [time_str day h]) < 5" by simp
      from Cons.IH [OF this] ns fr False Cons.prems show ?thesis by (auto simp: Let_def)
    qed
  qed
qed

lemma hours_loop_length:
  "length acc < 5 \<Longrightarrow> length (hours_loop session all_sessions day hs acc) \<le> 5"
  by (simp add: hours_loop_eq)

lemma days_loop_eq:
  "length acc < 5 \<Longrightarrow>
   days_loop session all_sessions days acc =
     take 5 (acc @ concat (map (\<lambda>day. map (time_str day)
       (filter (usable session all_sessions day) possible_hours)) days))"
proof (induction days arbitrary: acc)
  case Nil
  then show ?case by simp
next
  case (Cons day days)
  let ?X = "map (time_str day) (filter (usable session all_sessions day) possible_hours)"
  have h: "hours_loop session all_sessions day possible_hours acc = take 5 (acc @ ?X)"
    using hours_loop_eq [OF Cons.prems] by (simp add: usable_def [abs_def])
  show ?case
  proof (cases "length (acc @ ?X) \<ge> 5")
    case True
    with Cons.prems show ?thesis by (simp add: h Let_def)
  next
    case False
    then have "length (acc @ ?X) < 5" by simp
    from Cons.IH [OF this] False Cons.prems show ?thesis by (simp add: h Let_def)
  qed
qed

lemma concat_map_filter_product:
  "concat (map (\<lambda>d. map (f d) (filter (P d) hs)) ds) =
     map (\<lambda>(d, h). f d h) (filter (\<lambda>(d, h). P d h) (List.product ds hs))"
  by (induction ds) (simp_all add: filter_map o_def)

lemma find_alternative_times_eq:
  "find_alternative_times session all_sessions =
     map (\<lambda>(day, h). time_str day h)
       (take 5 (filter (\<lambda>(day, h). time_slot_free session all_sessions day h)
                  (candidate_slots session)))"
proof -
  have "find_alternative_times session all_sessions =
      take 5 (map (\<lambda>(day, h). time_str day h)
        (filter (\<lambda>(day, h). usable session all_sessions day h)
           (List.product possible_days possible_hours)))"
    by (simp add: find_alternative_times_def days_loop_eq concat_map_filter_product)
  also have "filter (\<lambda>(day, h). usable session all_sessions day h)
           (List.product possible_days possible_hours) =
      filter (\<lambda>(day, h). time_slot_free session all_sessions day h) (candidate_slots session)"
    by (simp add: candidate_slots_def usable_def case_prod_unfold conj_commute)
  finally show ?thesis by (simp add: take_map)
qed

lemma candidate_slots_iff:
  "(day, h) \<in> set (candidate_slots session) \<longleftrightarrow>
     0 \<le> day \<and> day \<le> 4 \<and> 9 \<le> h \<and> h \<le> 16 \<and>
     \<not> (day = day_of_week session \<and> h = hour (start_time session))"
  by (auto simp: candidate_slots_def possible_days_def possible_hours_def)

lemma time_slot_free_iff:
  "time_slot_free session all_sessions day h \<longleftrightarrow>
     \<not> (\<exists>other \<in> set all_sessions.
          day_of_week other = day \<and> hour (start_time other) = h \<and>
          (venue_id other = venue_id session \<or> lecturer_id other = lecturer_id session \<or>
           set (student_groups session) \<inter> set (student_groups other) \<noteq> {}))"
  by (auto simp: time_slot_free_def list_ex_iff)


text \<open>
  C4, as stated: the finder iterates hours 8 through 17 skipping the lunch hour 12.
  The effective definition iterates \<^verbatim>\<open>range(9, 17)\<close>, the hours 9 to 16, and skips
  no lunch hour. For the Monday 09:00 session of scenario S2 it returns Monday 12:00,
  and it does not return Monday 08:00 although that slot is free.
\<close>

theorem C4_lunch_hour_returned_counterexample:
  "find_alternative_times session_a [session_a, session_b] =
     [''Monday 10:00'', ''Monday 11:00'', ''Monday 12:00'', ''Monday 13:00'', ''Monday 14:00''] \<and>
   time_slot_free session_a [session_a, session_b] 0 8"
  by code_simp

text \<open>
  C4, amended: for every session and schedule, the finder visits the days Monday to
  Friday in order and, within a day, the hours 9 to 16 in order (no lunch skip), leaving
  out the session's current slot. A visited slot is usable exactly when no session of the
  schedule at that (day, hour) shares the venue, the lecturer or a student group; the
  result is the first five usable slots in visiting order (all of them when there are
  fewer), rendered as \<^verbatim>\<open>"<Day> HH:00"\<close>. So it returns at most 5 slots, each of them
  usable.
\<close>

theorem C4_alternative_times:
  "find_alternative_times session all_sessions =
     map (\<lambda>(day, h). time_str day h)
       (take 5 (filter (\<lambda>(day, h). time_slot_free session all_sessions day h)
                  (candidate_slots session))) \<and>
   length (find_alternative_times session all_sessions) \<le> 5 \<and>
   ((day, h) \<in> set (candidate_slots session) \<longleftrightarrow>
      0 \<le> day \<and> day \<le> 4 \<and> 9 \<le> h \<and> h \<le> 16 \<and>
      \<not> (day = day_of_week session \<and> h = hour (start_time session))) \<and>
   (time_slot_free session all_sessions day h \<longleftrightarrow>
      \<not> (\<exists>other \<in> set all_sessions.
           day_of_week other = day \<and> hour (start_time other) = h \<and>
           (venue_id other = venue_id session \<or> lecturer_id other = lecturer_id session \<or>
            set (student_groups session) \<inter> set (student_groups other) \<noteq> {})))"
  using candidate_slots_iff [of day h session]
    time_slot_free_iff [of session all_sessions day h]
  by (simp add: find_alternative_times_eq)

theorem C4_alternative_times_witness:
  "length (find_alternative_times session_a [session_a, session_b]) \<le> 5 \<and>
   (0, 12) \<in> set (candidate_slots session_a) \<and>
   (0, 8) \<notin> set (candidate_slots session_a) \<and>
   (0, 9) \<notin> set (candidate_slots session_a)"
  using C4_alternative_times [of session_a "[session_a, session_b]" 0 12]
    C4_alternative_times [of session_a "[session_a, session_b]" 0 8]
    C4_alternative_times [of session_a "[session_a, session_b]" 0 9]
  by (simp add: session_a_def)

subsection \<open>C8: alternative venues\<close>

lemma suitable_venue_iff:
  "suitable_venue session entities venue \<longleftrightarrow>
     venue_ident venue \<noteq> venue_id session \<and>
     required_capacity session entities \<le> get_capacity venue \<and>
     set (session_required_equipment session entities) \<subseteq> set (get_equipment venue)"
  by (auto simp: suitable_venue_def list_all_iff)

text \<open>
  C8, as stated: the finder returns at most 5 venues. The effective definition ends in
  \<^verbatim>\<open>return sorted(suitable_venues, key=...)\<close> with no slice: with six suitable halls it
  returns all six.
\<close>

theorem C8_six_venues_returned_counterexample:
  "map venue_ident (find_alternative_venues session_d six_halls overfull_entities) =
     [''hall_4'', ''hall_2'', ''hall_6'', ''hall_3'', ''hall_1'', ''hall_5''] \<and>
   length (find_alternative_venues session_d six_halls overfull_entities) = 6"
  by code_simp

text \<open>
  C8, amended: for every session, the finder returns exactly the venues different from
  the session's current venue whose capacity is at least the sum of the attending student
  groups' sizes (an unknown group counts 0) and whose equipment contains every required
  equipment tag of the session's course (none when the course is unknown), sorted by
  capacity ascending. All such venues are returned; the finder applies no cap.
\<close>

theorem C8_alternative_venues:
  "set (find_alternative_venues session venues entities) =
     {v \<in> set venues.
        venue_ident v \<noteq> venue_id session \<and>
        required_capacity session entities \<le> get_capacity v \<and>
        set (session_required_equipment session entities) \<subseteq> set (get_equipment v)} \<and>
   sorted (map get_capacity (find_alternative_venues session venues entities)) \<and>
   length (find_alternative_venues session venues entities) =
     length (filter (suitable_venue session entities) venues)"
  by (auto simp: find_alternative_venues_def suitable_venue_iff)

theorem C8_alternative_venues_witness:
  "set (find_alternative_venues session_d six_halls overfull_entities) = set six_halls \<and>
   sorted (map get_capacity (find_alternative_venues session_d six_halls overfull_entities)) \<and>
   length (find_alternative_venues session_d six_halls overfull_entities) = 6"
proof -
  have req: "required_capacity session_d overfull_entities = 75"
    "session_required_equipment session_d overfull_entities = [''projector'']"
    by (simp_all add: required_capacity_def session_required_equipment_def session_d_def
        overfull_entities_def dict_by_id_def get_size_def get_required_equipment_def)
  have vid: "venue_id session_d = ''room_d''"
    by (simp add: session_d_def)
  have all: "filter (suitable_venue session_d overfull_entities) six_halls = six_halls"
    by (simp add: suitable_venue_iff req vid six_halls_def hall_def get_capacity_def
        get_equipment_def)
  show ?thesis
    using C8_alternative_venues [of session_d six_halls overfull_entities]
    by (simp add: find_alternative_venues_def all) (simp add: six_halls_def)
qed

subsection \<open>C6: ranking and truncation\<close>

lemma rank_key_le_iff:
  "rank_key a \<le> rank_key b \<longleftrightarrow>
     sug_score b < sug_score a \<or>
     (sug_score a = sug_score b \<and>
      effort_order (effort_level a) \<le> effort_order (effort_level b))"
  by (auto simp: rank_key_def less_eq_prod_def)

lemma rank_suggestions_sorted: "sorted (map rank_key (rank_suggestions suggestions))"
  by (simp add: rank_suggestions_def)

lemma rank_suggestions_nth:
  assumes "i < j" "j < length (rank_suggestions suggestions)"
  shows "rank_key (rank_suggestions suggestions ! i) \<le> rank_key (rank_suggestions suggestions ! j)"
proof -
  have "map rank_key (rank_suggestions suggestions) ! i
          \<le> map rank_key (rank_suggestions suggestions) ! j"
    using assms rank_suggestions_sorted [of suggestions]
    by (intro sorted_nth_mono) simp_all
  with assms show ?thesis by simp
qed

lemma py_take_nonneg: "0 \<le> n \<Longrightarrow> py_take n xs = take (nat n) xs"
  by (simp add: py_take_def)

text \<open>
  C6: the ranked list holds the same suggestions, ordered by score descending and, among
  equal scores, by effort rank ascending (\<open>low\<close> 1, \<open>medium\<close> 2, \<open>high\<close> 3, anything else
  2); so of two ranked suggestions with equal score the one with the lower effort rank
  comes earlier. The sort is stable. \<^verbatim>\<open>generate_resolution_suggestions\<close> returns the
  first \<open>max_suggestions\<close> of the ranked suggestions, hence at most \<open>max_suggestions\<close> of
  them, for a non-negative \<open>max_suggestions\<close> (5 by default).
\<close>

theorem C6_ranking_and_truncation:
  "set (rank_suggestions suggestions) = set suggestions \<and>
   length (rank_suggestions suggestions) = length suggestions \<and>
   (\<forall>i j. i < j \<and> j < length suggestions \<longrightarrow>
      sug_score (rank_suggestions suggestions ! j) \<le> sug_score (rank_suggestions suggestions ! i) \<and>
      (sug_score (rank_suggestions suggestions ! i) = sug_score (rank_suggestions suggestions ! j)
         \<longrightarrow> effort_order (effort_level (rank_suggestions suggestions ! i))
               \<le> effort_order (effort_level (rank_suggestions suggestions ! j)))) \<and>
   (\<forall>i j. i < length suggestions \<and> j < length suggestions \<and>
      sug_score (rank_suggestions suggestions ! i) = sug_score (rank_suggestions suggestions ! j) \<and>
      effort_order (effort_level (rank_suggestions suggestions ! i))
        < effort_order (effort_level (rank_suggestions suggestions ! j)) \<longrightarrow> i < j) \<and>
   (\<forall>k. filter (\<lambda>s. rank_key s = k) (rank_suggestions suggestions)
          = filter (\<lambda>s. rank_key s = k) suggestions) \<and>
   (0 \<le> max_suggestions \<longrightarrow>
      generate_resolution_suggestions strategies conflicts max_suggestions =
        take (nat max_suggestions)
          (rank_suggestions
             (concat (map (\<lambda>(kind, type_conflicts). strategies kind type_conflicts)
                        (group_conflicts_by_type conflicts)))) \<and>
      int (length (generate_resolution_suggestions strategies conflicts max_suggestions))
        \<le> max_suggestions)"
proof -
  let ?r = "rank_suggestions suggestions"
  have len: "length ?r = length suggestions" and st: "set ?r = set suggestions"
    by (simp_all add: rank_suggestions_def)
  have ord: "\<And>i j. i < j \<Longrightarrow> j < length suggestions \<Longrightarrow>
      sug_score (?r ! j) \<le> sug_score (?r ! i) \<and>
      (sug_score (?r ! i) = sug_score (?r ! j)
         \<longrightarrow> effort_order (effort_level (?r ! i)) \<le> effort_order (effort_level (?r ! j)))"
  proof -
    fix i j assume "i < j" "j < length suggestions"
    then have "rank_key (?r ! i) \<le> rank_key (?r ! j)"
      using rank_suggestions_nth [of i j suggestions] by (simp add: len)
    then show "sug_score (?r ! j) \<le> sug_score (?r ! i) \<and>
      (sug_score (?r ! i) = sug_score (?r ! j)
         \<longrightarrow> effort_order (effort_level (?r ! i)) \<le> effort_order (effort_level (?r ! j)))"
      by (auto simp: rank_key_le_iff)
  qed
  have tie: "\<And>i j. i < length suggestions \<Longrightarrow> j < length suggestions \<Longrightarrow>
      sug_score (?r ! i) = sug_score (?r ! j) \<Longrightarrow>
      effort_order (effort_level (?r ! i)) < effort_order (effort_level (?r ! j)) \<Longrightarrow> i < j"
  proof (rule ccontr)
    fix i j
    assume b: "i < length suggestions" "j < length suggestions"
      and eq: "sug_score (?r ! i) = sug_score (?r ! j)"
      and lt: "effort_order (effort_level (?r ! i)) < effort_order (effort_level (?r ! j))"
      and n: "\<not> i < j"
    show False
    proof (cases "i = j")
      case True with lt show False by simp
    next
      case False
      with n have "j < i" by simp
      from ord [OF this b(1)] eq lt show False by simp
    qed
  qed
  have stable: "\<And>k. filter (\<lambda>s. rank_key s = k) ?r = filter (\<lambda>s. rank_key s = k) suggestions"
    by (simp add: rank_suggestions_def sort_key_stable)
  have cut: "0 \<le> max_suggestions \<Longrightarrow>
      generate_resolution_suggestions strategies conflicts max_suggestions =
        take (nat max_suggestions)
          (rank_suggestions
             (concat (map (\<lambda>(kind, type_conflicts). strategies kind type_conflicts)
                        (group_conflicts_by_type conflicts)))) \<and>
      int (length (generate_resolution_suggestions strategies conflicts max_suggestions))
        \<le> max_suggestions"
    by (simp add: generate_resolution_suggestions_def Let_def py_take_nonneg)
  show ?thesis
    using len st ord tie stable cut by blast
qed

theorem C6_ranking_and_truncation_witness:
  "rank_suggestions [suggestion_split, suggestion_reschedule, suggestion_move] =
     [suggestion_move, suggestion_reschedule, suggestion_split] \<and>
   generate_resolution_suggestions sample_strategies [venue_conflict] 2 =
     [suggestion_move, suggestion_reschedule] \<and>
   int (length (generate_resolution_suggestions sample_strategies [venue_conflict] 2)) \<le> 2"
proof -
  have keys: "rank_key suggestion_split = (- 0.7, 3)" "rank_key suggestion_reschedule = (- 0.7, 2)"
    "rank_key suggestion_move = (- 0.8, 1)"
    by (simp_all add: rank_key_def suggestion_split_def suggestion_reschedule_def
        suggestion_move_def new_suggestion_def effort_order_def)
  have r: "rank_suggestions [suggestion_split, suggestion_reschedule, suggestion_move] =
     [suggestion_move, suggestion_reschedule, suggestion_split]"
    by (simp add: rank_suggestions_def keys less_eq_prod_def)
  have g: "concat (map (\<lambda>(kind, type_conflicts). sample_strategies kind type_conflicts)
                        (group_conflicts_by_type [venue_conflict])) =
       [suggestion_split, suggestion_reschedule, suggestion_move]"
    by (simp add: group_conflicts_by_type_def sample_strategies_def conflict_kind_def
        venue_conflict_def)
  show ?thesis
    using C6_ranking_and_truncation
      [of "[suggestion_split, suggestion_reschedule, suggestion_move]" 2
          sample_strategies "[venue_conflict]"]
    by (simp add: g r)
qed

subsection \<open>C7: conflict patterns\<close>

text \<open>The counter dictionary holds, for each key, the number of its occurrences.\<close>

lemma count_at_bump: "count_at (bump k d) k' = count_at d k' + (if k' = k then 1 else 0)"
  by (induction d) (auto simp: count_at_def)

lemma keys_bump: "fst ` set (bump k d) = insert k (fst ` set d)"
proof (induction d)
  case Nil
  show ?case by simp
next
  case (Cons a d)
  obtain k' c where a: "a = (k', c)" by (cases a)
  show ?case
  proof (cases "k' = k")
    case True
    then show ?thesis by (simp add: a insert_absorb2)
  next
    case False
    then show ?thesis by (simp add: a Cons.IH insert_commute)
  qed
qed

lemma distinct_bump: "distinct (map fst d) \<Longrightarrow> distinct (map fst (bump k d))"
proof (induction d)
  case Nil
  show ?case by simp
next
  case (Cons a d)
  obtain k' c where a: "a = (k', c)" by (cases a)
  from Cons have "distinct (map fst (bump k d))" "k' \<notin> fst ` set d" by (auto simp: a)
  then show ?case using Cons.prems by (auto simp: a keys_bump)
qed

lemma count_by_snoc: "count_by f (xs @ [x]) = bump (f x) (count_by f xs)"
  by (simp add: count_by_def)

lemma count_at_count_by: "count_at (count_by f xs) k = length (filter (\<lambda>x. f x = k) xs)"
proof (induction xs rule: rev_induct)
  case Nil
  show ?case by (simp add: count_by_def count_at_def)
next
  case (snoc x xs)
  then show ?case by (simp add: count_by_snoc count_at_bump)
qed

lemma distinct_count_by: "distinct (map fst (count_by f xs))"
proof (induction xs rule: rev_induct)
  case Nil
  show ?case by (simp add: count_by_def)
next
  case (snoc x xs)
  then show ?case by (simp add: count_by_snoc distinct_bump)
qed

lemma positive_bump: "(\<forall>(k, n) \<in> set d. 0 < n) \<Longrightarrow> (\<forall>(k, n) \<in> set (bump k' d). 0 < n)"
  by (induction d) (auto split: if_splits)

lemma positive_count_by: "\<forall>(k, n) \<in> set (count_by f xs). 0 < n"
proof (induction xs rule: rev_induct)
  case Nil
  show ?case by (simp add: count_by_def)
next
  case (snoc x xs)
  then show ?case unfolding count_by_snoc by (rule positive_bump)
qed

lemma count_by_entry_iff:
  "(k, n) \<in> set (count_by f xs) \<longleftrightarrow> n = length (filter (\<lambda>x. f x = k) xs) \<and> 0 < n"
proof
  assume a: "(k, n) \<in> set (count_by f xs)"
  then have "map_of (count_by f xs) k = Some n"
    using distinct_count_by [of f xs] by simp
  then have "count_at (count_by f xs) k = n" by (simp add: count_at_def)
  moreover from a positive_count_by [of f xs] have "0 < n" by auto
  ultimately show "n = length (filter (\<lambda>x. f x = k) xs) \<and> 0 < n"
    by (simp add: count_at_count_by)
next
  assume a: "n = length (filter (\<lambda>x. f x = k) xs) \<and> 0 < n"
  then have "count_at (count_by f xs) k = n" by (simp add: count_at_count_by)
  moreover from a have "0 < n" by (rule conjunct2)
  ultimately have "map_of (count_by f xs) k = Some n"
    by (auto simp: count_at_def split: option.splits)
  then show "(k, n) \<in> set (count_by f xs)" by (rule map_of_SomeD)
qed

lemma length_at_append_at:
  "length_at (append_at k v d) k' = length_at d k' + (if k' = k then 1 else 0)"
  by (induction d) (auto simp: length_at_def)

lemma length_at_fold_entities:
  "length_at (foldl (\<lambda>d e. append_at e c d) d es) k = length_at d k + count_list es k"
  by (induction es arbitrary: d) (auto simp: length_at_append_at)

lemma length_at_entity_conflicts:
  "length_at (entity_conflicts cs) e = entity_occurrences cs e"
proof -
  have "\<And>d. length_at (foldl (\<lambda>d conflict. foldl (\<lambda>d entity. append_at entity conflict d) d
                            (get_affected_entities conflict)) d cs) e
        = length_at d e + entity_occurrences cs e"
    by (induction cs) (simp_all add: entity_occurrences_def length_at_fold_entities)
  from this [of "[]"] show ?thesis by (simp add: entity_conflicts_def length_at_def)
qed

lemma entity_occurrences_ge:
  "length (filter (\<lambda>c. e \<in> set (get_affected_entities c)) cs) \<le> entity_occurrences cs e"
proof (induction cs)
  case Nil
  show ?case by (simp add: entity_occurrences_def)
next
  case (Cons c cs)
  have "e \<in> set (get_affected_entities c) \<Longrightarrow> 0 < count_list (get_affected_entities c) e"
    using count_list_0_iff [of "get_affected_entities c" e] by simp
  with Cons show ?case by (auto simp: entity_occurrences_def)
qed


lemma type_counts_entry_iff:
  "(k, n) \<in> set (type_counts cs) \<longleftrightarrow> n = kind_count cs k \<and> 0 < n"
  by (simp add: type_counts_def kind_count_def count_by_entry_iff)

lemma new_pattern_fields [simp]:
  "conflict_type (new_pattern t n es) = t"
  "frequency (new_pattern t n es) = n"
  "pattern_entities (new_pattern t n es) = es"
  "severity_score (new_pattern t n es) = calculate_severity n es"
  by (simp_all add: new_pattern_def)

lemma calculate_severity_eq:
  "calculate_severity n es = min 1 (of_nat n / 10 + of_nat (length es) / 20)"
  by (simp add: calculate_severity_def Let_def min_def)

lemma kind_patterns_iff:
  "(\<exists>p \<in> set (kind_patterns cs). conflict_type p = k) \<longleftrightarrow> 2 \<le> kind_count cs k"
proof
  assume "\<exists>p \<in> set (kind_patterns cs). conflict_type p = k"
  then obtain n where "(k, n) \<in> set (type_counts cs)" "2 \<le> n"
    by (auto simp: kind_patterns_def)
  then show "2 \<le> kind_count cs k" by (simp add: type_counts_entry_iff)
next
  assume a: "2 \<le> kind_count cs k"
  then have "(k, kind_count cs k) \<in> set (type_counts cs)"
    by (simp add: type_counts_entry_iff)
  with a show "\<exists>p \<in> set (kind_patterns cs). conflict_type p = k"
    by (force simp: kind_patterns_def)
qed

lemma kind_patterns_frequency:
  "p \<in> set (kind_patterns cs) \<Longrightarrow> frequency p = kind_count cs (conflict_type p)"
  by (auto simp: kind_patterns_def type_counts_entry_iff)

lemma hotspot_patterns_name:
  "p \<in> set (hotspot_patterns cs) \<Longrightarrow> take 15 (conflict_type p) = ''entity_hotspot_''"
  by (auto simp: hotspot_patterns_def)

lemma hotspot_patterns_present:
  assumes "3 \<le> length (filter (\<lambda>c. e \<in> set (get_affected_entities c)) cs)"
  shows "\<exists>p \<in> set (hotspot_patterns cs).
           conflict_type p = ''entity_hotspot_'' @ e \<and> pattern_entities p = [e] \<and> 3 \<le> frequency p"
proof -
  from assms entity_occurrences_ge [of e cs] have "3 \<le> length_at (entity_conflicts cs) e"
    by (simp add: length_at_entity_conflicts)
  then obtain l where l: "map_of (entity_conflicts cs) e = Some l" "3 \<le> length l"
    by (auto simp: length_at_def split: option.splits)
  then have "(e, l) \<in> set (entity_conflicts cs)" by (simp add: map_of_SomeD)
  with l(2) have "new_pattern (''entity_hotspot_'' @ e) (length l) [e] \<in> set (hotspot_patterns cs)"
    by (force simp: hotspot_patterns_def)
  with l(2) show ?thesis by (intro bexI [where x = "new_pattern (''entity_hotspot_'' @ e) (length l) [e]"]) simp_all
qed

lemma set_identify_conflict_patterns:
  "set (identify_conflict_patterns cs) = set (kind_patterns cs) \<union> set (hotspot_patterns cs)"
  by (simp add: identify_conflict_patterns_def)

lemma pattern_severity:
  "p \<in> set (identify_conflict_patterns cs) \<Longrightarrow>
     severity_score p = min 1 (of_nat (frequency p) / 10 + of_nat (length (pattern_entities p)) / 20)"
  by (auto simp: set_identify_conflict_patterns kind_patterns_def hotspot_patterns_def
      calculate_severity_eq)

text \<open>
  C7: a pattern for a conflict kind (a pattern of the first loop, named after the kind,
  with the kind's count as frequency) is reported exactly when the kind occurs at least
  twice, never for a kind occurring once; every entity listed in at least three conflicts
  gets an \<^verbatim>\<open>entity_hotspot_\<close> pattern; and every reported pattern has severity
  \<open>min(1, frequency/10 + |entities|/20)\<close>. The reported patterns are those of the two
  loops; a hotspot pattern carries a name that starts with \<^verbatim>\<open>entity_hotspot_\<close>, so for
  every other name, a pattern of that name is reported exactly when the kind occurs at
  least twice.
\<close>

theorem C7_conflict_patterns:
  "set (identify_conflict_patterns cs) = set (kind_patterns cs) \<union> set (hotspot_patterns cs) \<and>
   ((\<exists>p \<in> set (kind_patterns cs). conflict_type p = k) \<longleftrightarrow> 2 \<le> kind_count cs k) \<and>
   (\<forall>p \<in> set (kind_patterns cs). frequency p = kind_count cs (conflict_type p)) \<and>
   (take 15 k \<noteq> ''entity_hotspot_'' \<longrightarrow>
      ((\<exists>p \<in> set (identify_conflict_patterns cs). conflict_type p = k)
         \<longleftrightarrow> 2 \<le> kind_count cs k)) \<and>
   (3 \<le> length (filter (\<lambda>c. e \<in> set (get_affected_entities c)) cs) \<longrightarrow>
      (\<exists>p \<in> set (identify_conflict_patterns cs).
         conflict_type p = ''entity_hotspot_'' @ e \<and> pattern_entities p = [e] \<and>
         3 \<le> frequency p)) \<and>
   (\<forall>p \<in> set (identify_conflict_patterns cs).
      severity_score p =
        min 1 (of_nat (frequency p) / 10 + of_nat (length (pattern_entities p)) / 20))"
proof -
  have 4: "take 15 k \<noteq> ''entity_hotspot_'' \<Longrightarrow>
      ((\<exists>p \<in> set (identify_conflict_patterns cs). conflict_type p = k)
         \<longleftrightarrow> 2 \<le> kind_count cs k)"
    using kind_patterns_iff [of cs k] hotspot_patterns_name [of _ cs]
    by (auto simp: set_identify_conflict_patterns)
  have 5: "3 \<le> length (filter (\<lambda>c. e \<in> set (get_affected_entities c)) cs) \<Longrightarrow>
      (\<exists>p \<in> set (identify_conflict_patterns cs).
         conflict_type p = ''entity_hotspot_'' @ e \<and> pattern_entities p = [e] \<and>
         3 \<le> frequency p)"
    using hotspot_patterns_present [of e cs] by (auto simp: set_identify_conflict_patterns)
  show ?thesis
    using 4 5 kind_patterns_iff [of cs k] kind_patterns_frequency [of _ cs]
      pattern_severity [of _ cs] set_identify_conflict_patterns [of cs]
    by blast
qed

theorem C7_conflict_patterns_witness:
  "map (\<lambda>p. (conflict_type p, frequency p, pattern_entities p, severity_score p))
     (identify_conflict_patterns six_conflicts) =
     [(''entity_hotspot_room_a'', 3, [''room_a''], 0.35),
      (''lecturer_conflict'', 2, [''prof_smith'', ''room_a''], 0.3),
      (''venue_double_booking'', 2, [''room_a''], 0.25)] \<and>
   kind_count six_conflicts ''capacity_exceeded'' = 1 \<and>
   \<not> (\<exists>p \<in> set (identify_conflict_patterns six_conflicts).
        conflict_type p = ''capacity_exceeded'')"
proof -
  have v: "map (\<lambda>p. (conflict_type p, frequency p, pattern_entities p, severity_score p))
     (identify_conflict_patterns six_conflicts) =
     [(''entity_hotspot_room_a'', 3, [''room_a''], 0.35),
      (''lecturer_conflict'', 2, [''prof_smith'', ''room_a''], 0.3),
      (''venue_double_booking'', 2, [''room_a''], 0.25)]"
    by code_simp
  have n: "kind_count six_conflicts ''capacity_exceeded'' = 1"
    by code_simp
  from C7_conflict_patterns [of six_conflicts "''capacity_exceeded''" "''room_a''"] n
  have "\<not> (\<exists>p \<in> set (identify_conflict_patterns six_conflicts).
        conflict_type p = ''capacity_exceeded'')"
    by simp
  with v n show ?thesis by simp
qed

subsection \<open>C5: suggestion evaluation\<close>








subsection \<open>C9 and C10: the search driver's results\<close>

lemma solve_try_model_built:
  "model_built r \<Longrightarrow>
   solve_try r =
     (case cp_solve r of
        Inl e \<Rightarrow> Inl e
      | Inr status \<Rightarrow>
          if status = OPTIMAL \<or> status = FEASIBLE
          then (case extracted_sessions r of
                  Inl e \<Rightarrow> Inl e
                | Inr ss \<Rightarrow>
                    (let solution = extract_solution ss
                     in Inr (solution\<lparr>metadata := metadata solution @
                               [(''processing_time'', PNum (processing_time r)),
                                (''solver_status'',
                                 PStr (if status = OPTIMAL then ''optimal'' else ''feasible''))]\<rparr>)))
          else Inr \<lparr>sessions = [], sol_score = 0, is_feasible = False,
                    sol_conflicts = analyze_infeasibility,
                    metadata = [(''processing_time'', PNum (processing_time r)),
                                (''solver_status'', PStr ''infeasible'')]\<rparr>)"
  by (simp add: model_built_def solve_try_def and_then_def)


lemma model_built_examples: "model_built infeasible_run" "model_built mocked_run"
  by (simp_all add: model_built_def infeasible_run_def mocked_run_def skip_mock_errors_def)




text \<open>When the \<^verbatim>\<open>try\<close> block is left by an exception: the first step that raises.\<close>

lemma solve_try_raises_iff:
  "solve_try r = Inl e \<longleftrightarrow>
     init_model r = Some e \<or>
     init_model r = None \<and> create_variables r = Some e \<or>
     init_model r = None \<and> create_variables r = None \<and> add_hard_constraints r = Some e \<or>
     init_model r = None \<and> create_variables r = None \<and> add_hard_constraints r = None \<and>
       add_soft_constraints r = Some e \<and> \<not> is_mock_error e \<or>
     init_model r = None \<and> create_variables r = None \<and> add_hard_constraints r = None \<and>
       skip_mock_errors (add_soft_constraints r) = None \<and>
       set_objective r = Some e \<and> \<not> is_mock_error e \<or>
     model_built r \<and> cp_solve r = Inl e \<or>
     model_built r \<and> (cp_solve r = Inr OPTIMAL \<or> cp_solve r = Inr FEASIBLE) \<and>
       extracted_sessions r = Inl e"
  by (auto simp: solve_try_def and_then_def model_built_def skip_mock_errors_def Let_def
      split: option.splits sum.splits if_splits)

lemma solve_error:
  "solve_try r = Inl e \<Longrightarrow> solve r = solver_error_result r e"
  by (simp add: solve_def)

text \<open>
  C10, as stated: when any internal step raises, \<^verbatim>\<open>solve\<close> returns the
  \<^verbatim>\<open>solver_error\<close> result. Not for the two steps with a handler of their own: a
  \<^verbatim>\<open>TypeError\<close> or \<^verbatim>\<open>AttributeError\<close> raised while adding the soft constraints or
  setting the objective is logged and skipped, and the solve goes on. In a run where adding
  the soft constraints raises a \<^verbatim>\<open>TypeError\<close> and the search is optimal, the result is
  the feasible schedule.
\<close>

theorem C10_skipped_step_counterexample:
  "add_soft_constraints mocked_run = Some (TypeError ''unsupported operand type'') \<and>
   is_feasible (solve mocked_run) \<and> sessions (solve mocked_run) = [session_a] \<and>
   sol_conflicts (solve mocked_run) = []"
proof -
  have "val_conflicts (validate_solution \<lparr>sessions = [session_a], sol_score = 0,
          is_feasible = True, sol_conflicts = [], metadata = []\<rparr>) = []"
    by (simp add: validate_solution_conflicts violations_empty_iff)
  then have x: "sol_conflicts (extract_solution [session_a]) = []"
    "is_feasible (extract_solution [session_a])"
    "sessions (extract_solution [session_a]) = [session_a]"
    by (simp_all add: extract_solution_def Let_def)
  have "solve mocked_run =
      (extract_solution [session_a])\<lparr>metadata := metadata (extract_solution [session_a]) @
         [(''processing_time'', PNum 1), (''solver_status'', PStr ''optimal'')]\<rparr>"
    unfolding solve_def solve_try_model_built [OF model_built_examples(2)]
    by (simp add: mocked_run_def Let_def)
  with x show ?thesis by (simp add: mocked_run_def)
qed

text \<open>
  C10, amended: \<^verbatim>\<open>solve\<close> never propagates an exception to the caller (it is a total
  function to solutions). The \<^verbatim>\<open>try\<close> block is left by an exception \<open>e\<close> exactly when
  \<open>e\<close> is raised by the first step that raises and that step is not one whose handler
  skips it, a \<^verbatim>\<open>TypeError\<close> or \<^verbatim>\<open>AttributeError\<close> from adding the soft constraints or
  from setting the objective; and then \<^verbatim>\<open>solve\<close> returns a solution with an empty
  session list, score 0, \<open>is_feasible = false\<close>, and the single conflict record of type
  \<^verbatim>\<open>solver_error\<close> carrying the message of \<open>e\<close>.
\<close>

theorem C10_solver_error_result:
  "(solve_try r = Inl e \<longleftrightarrow>
      init_model r = Some e \<or>
      init_model r = None \<and> create_variables r = Some e \<or>
      init_model r = None \<and> create_variables r = None \<and> add_hard_constraints r = Some e \<or>
      init_model r = None \<and> create_variables r = None \<and> add_hard_constraints r = None \<and>
        add_soft_constraints r = Some e \<and> \<not> is_mock_error e \<or>
      init_model r = None \<and> create_variables r = None \<and> add_hard_constraints r = None \<and>
        skip_mock_errors (add_soft_constraints r) = None \<and>
        set_objective r = Some e \<and> \<not> is_mock_error e \<or>
      model_built r \<and> cp_solve r = Inl e \<or>
      model_built r \<and> (cp_solve r = Inr OPTIMAL \<or> cp_solve r = Inr FEASIBLE) \<and>
        extracted_sessions r = Inl e) \<and>
   (solve_try r = Inl e \<longrightarrow>
      sessions (solve r) = [] \<and> sol_score (solve r) = 0 \<and> \<not> is_feasible (solve r) \<and>
      sol_conflicts (solve r) =
        [[(''type'', PStr ''solver_error''), (''message'', PStr (exception_message e))]]) \<and>
   (\<exists>solution. solve r = solution)"
  using solve_try_raises_iff [of r e] solve_error [of r e]
  by (auto simp: solver_error_result_def)

theorem C10_solver_error_result_witness:
  "create_variables failing_run = Some (OtherException ''id'') \<and>
   solve_try failing_run = Inl (OtherException ''id'') \<and>
   sessions (solve failing_run) = [] \<and> sol_score (solve failing_run) = 0 \<and>
   \<not> is_feasible (solve failing_run) \<and>
   sol_conflicts (solve failing_run) =
     [[(''type'', PStr ''solver_error''), (''message'', PStr ''id'')]]"
proof -
  have i: "init_model failing_run = None"
    and c: "create_variables failing_run = Some (OtherException ''id'')"
    by (simp_all add: failing_run_def)
  from C10_solver_error_result [of failing_run "OtherException ''id''"] i c
  have t: "solve_try failing_run = Inl (OtherException ''id'')" by blast
  with C10_solver_error_result [of failing_run "OtherException ''id''"] c
  show ?thesis by simp
qed

end
